theory Spec2Isabelle
  imports Complex_Main
begin

section \<open>Data model\<close>

text \<open>
  The repository formulates a procurement problem as a linear programme and hands it to
  \<^verbatim>\<open>scipy.optimize.linprog\<close>. Numbers are the Python numbers of the cost vector, the
  constraint matrix and the requirement vector; they are modelled as reals (negation, the
  only arithmetic the formulation layer performs, is exact on Python integers and on
  floats). A vector is a Python list of numbers, a matrix a list of rows.
\<close>

type_synonym vec = "real list"
type_synonym matrix = "real list list"

datatype py_error = ValueError | TypeError | IndexError

text \<open>
  The fields of \<^verbatim>\<open>scipy.optimize.OptimizeResult\<close> that the code reads:
  \<^verbatim>\<open>result.success\<close>, \<^verbatim>\<open>result.x\<close>, \<^verbatim>\<open>result.fun\<close>.
\<close>

record OptimizeResult =
  res_success :: bool
  res_x :: vec
  res_fun :: real

text \<open>
  \<^verbatim>\<open>linprog(c=..., A_ub=..., b_ub=..., method='highs')\<close> is an external routine: it is a
  parameter of the model. It either raises or returns an \<^verbatim>\<open>OptimizeResult\<close>.
\<close>

type_synonym solver = "vec \<Rightarrow> matrix \<Rightarrow> vec \<Rightarrow> py_error + OptimizeResult"

text \<open>
  The four classes \<^verbatim>\<open>PrimalProblem\<close>, \<^verbatim>\<open>DualProblem\<close>, \<^verbatim>\<open>GeneralizedPrimalProblem\<close>
  and \<^verbatim>\<open>GeneralizedDualProblem\<close> have the same three attributes.
\<close>

record lp_problem =
  costs :: vec
  constraints :: matrix
  requirements :: vec

text \<open>
  What \<^verbatim>\<open>solve\<close> returns, a pair \<^verbatim>\<open>(x, value)\<close> whose components are \<^verbatim>\<open>None\<close> on
  failure, together with the lines it printed.
\<close>

type_synonym solve_result = "(vec option \<times> real option) \<times> string list"

section \<open>Formulation\<close>

text \<open>
  \<^verbatim>\<open>numpy.transpose\<close> applied to a list of rows: the list is first converted to an
  array, which needs rows of one length (a ragged list is refused with \<^verbatim>\<open>ValueError\<close>)
  and which holds every entry in one element type; iterating over the transposed array
  yields one row per column of the input. The empty list and a list of empty rows yield no
  row at all.

  The element type depends on whether the Python numbers of the list are integers or
  floats, which a real number does not record. The conversion of an entry to the element
  type is therefore a parameter \<open>conv\<close> of the call: it is the identity on a list of floats
  and on a list of integers that fit 64 bits, and it rounds an integer that stands beside
  a float to the nearest double.
\<close>

type_synonym conversion = "real \<Rightarrow> real"

definition np_transpose :: "conversion \<Rightarrow> matrix \<Rightarrow> py_error + matrix" where
  "np_transpose conv A =
     (case A of
        [] \<Rightarrow> Inr []
      | r # rs \<Rightarrow>
          if list_all (\<lambda>row. length row = length r) rs
          then Inr (map (\<lambda>j. map (\<lambda>row. conv (row ! j)) A) [0..<length r])
          else Inl ValueError)"

text \<open>
  \<^verbatim>\<open>
  class PrimalProblem:
      def __init__(self, costs, constraints, requirements):
          self.costs = costs
          self.constraints = [[-c for c in row] for row in constraints]
          self.requirements = [-r for r in requirements]
  \<close>
\<close>

definition PrimalProblem :: "vec \<Rightarrow> matrix \<Rightarrow> vec \<Rightarrow> lp_problem" where
  "PrimalProblem c A b =
     \<lparr>costs = c,
      constraints = map (\<lambda>row. map (\<lambda>v. - v) row) A,
      requirements = map (\<lambda>r. - r) b\<rparr>"

definition GeneralizedPrimalProblem :: "vec \<Rightarrow> matrix \<Rightarrow> vec \<Rightarrow> lp_problem" where
  "GeneralizedPrimalProblem c A b =
     \<lparr>costs = c,
      constraints = map (\<lambda>row. map (\<lambda>v. - v) row) A,
      requirements = map (\<lambda>r. - r) b\<rparr>"

text \<open>
  \<^verbatim>\<open>
  class DualProblem:
      def __init__(self, costs, constraints, requirements):
          self.costs = [-r for r in requirements]
          self.constraints = np.transpose(constraints)
          self.requirements = costs
  \<close>
\<close>

definition DualProblem :: "conversion \<Rightarrow> vec \<Rightarrow> matrix \<Rightarrow> vec \<Rightarrow> py_error + lp_problem" where
  "DualProblem conv c A b =
     (case np_transpose conv A of
        Inl e \<Rightarrow> Inl e
      | Inr At \<Rightarrow>
          Inr \<lparr>costs = map (\<lambda>r. - r) b, constraints = At, requirements = c\<rparr>)"

text \<open>
  \<^verbatim>\<open>
  class GeneralizedDualProblem:
      def __init__(self, costs, constraints, requirements):
          self.costs = [-r for r in requirements]
          A_dual = np.transpose(constraints)
          self.constraints = [[v for v in row] for row in A_dual]
          self.requirements = costs
  \<close>
\<close>

definition GeneralizedDualProblem ::
  "conversion \<Rightarrow> vec \<Rightarrow> matrix \<Rightarrow> vec \<Rightarrow> py_error + lp_problem" where
  "GeneralizedDualProblem conv c A b =
     (case np_transpose conv A of
        Inl e \<Rightarrow> Inl e
      | Inr A_dual \<Rightarrow>
          Inr \<lparr>costs = map (\<lambda>r. - r) b,
               constraints = map (\<lambda>row. map (\<lambda>v. v) row) A_dual,
               requirements = c\<rparr>)"

text \<open>
  The conversion to 64-bit floats on the numbers of the list \<^verbatim>\<open>[[9007199254740993, 0.5]]\<close>:
  the integer \<open>2\<^sup>5\<^sup>3 + 1\<close> lies between the doubles \<open>2\<^sup>5\<^sup>3\<close> and \<open>2\<^sup>5\<^sup>3 + 2\<close> and is rounded
  to the even one, \<open>0.5\<close> is a double.
\<close>

definition float64_beside_half :: conversion where
  "float64_beside_half v = (if v = 9007199254740993 then 9007199254740992 else v)"

section \<open>Solving\<close>

definition msg_primal :: string where
  "msg_primal = ''Pas de solution optimale.''"

definition msg_dual :: string where
  "msg_dual = ''Pas de solution optimale pour le dual.''"

text \<open>The generalized message ends in \<^verbatim>\<open>trouv\<close>, e acute (two bytes in UTF-8), \<^verbatim>\<open>e\<close>.\<close>

definition msg_generalized :: string where
  "msg_generalized = ''Aucune solution optimale trouv'' @ [CHR 0xC3, CHR 0xA9] @ ''e''"

text \<open>
  \<^verbatim>\<open>
  def solve(self):      # PrimalProblem
      result = linprog(c=self.costs, A_ub=self.constraints, b_ub=self.requirements, method='highs')
      if result.success:
          return result.x, result.fun
      else:
          print("Pas de solution optimale.")
          return None, None
  \<close>
\<close>

definition PrimalProblem_solve :: "solver \<Rightarrow> lp_problem \<Rightarrow> py_error + solve_result" where
  "PrimalProblem_solve linprog self =
     (case linprog (costs self) (constraints self) (requirements self) of
        Inl e \<Rightarrow> Inl e
      | Inr result \<Rightarrow>
          if res_success result
          then Inr ((Some (res_x result), Some (res_fun result)), [])
          else Inr ((None, None), [msg_primal]))"

text \<open>The dual variants return \<^verbatim>\<open>result.x, -result.fun\<close>.\<close>

definition DualProblem_solve :: "solver \<Rightarrow> lp_problem \<Rightarrow> py_error + solve_result" where
  "DualProblem_solve linprog self =
     (case linprog (costs self) (constraints self) (requirements self) of
        Inl e \<Rightarrow> Inl e
      | Inr result \<Rightarrow>
          if res_success result
          then Inr ((Some (res_x result), Some (- res_fun result)), [])
          else Inr ((None, None), [msg_dual]))"

definition GeneralizedPrimalProblem_solve :: "solver \<Rightarrow> lp_problem \<Rightarrow> py_error + solve_result" where
  "GeneralizedPrimalProblem_solve linprog self =
     (case linprog (costs self) (constraints self) (requirements self) of
        Inl e \<Rightarrow> Inl e
      | Inr result \<Rightarrow>
          if res_success result
          then Inr ((Some (res_x result), Some (res_fun result)), [])
          else Inr ((None, None), [msg_generalized]))"

definition GeneralizedDualProblem_solve :: "solver \<Rightarrow> lp_problem \<Rightarrow> py_error + solve_result" where
  "GeneralizedDualProblem_solve linprog self =
     (case linprog (costs self) (constraints self) (requirements self) of
        Inl e \<Rightarrow> Inl e
      | Inr result \<Rightarrow>
          if res_success result
          then Inr ((Some (res_x result), Some (- res_fun result)), [])
          else Inr ((None, None), [msg_generalized]))"

section \<open>What the solver is asked\<close>

text \<open>
  \<^verbatim>\<open>linprog(c, A_ub, b_ub)\<close> with its default bounds minimizes \<open>c \<cdot> x\<close> subject to
  \<open>A_ub x \<le> b_ub\<close> and \<open>x \<ge> 0\<close>. These predicates say when a vector is a feasible point
  and when it is an optimum of that problem; a result is exact when its \<^verbatim>\<open>x\<close> is an
  optimum and its \<^verbatim>\<open>fun\<close> is the objective there.
\<close>

definition dot :: "vec \<Rightarrow> vec \<Rightarrow> real" where
  "dot u v = sum_list (map2 (*) u v)"

definition lp_feasible :: "vec \<Rightarrow> matrix \<Rightarrow> vec \<Rightarrow> vec \<Rightarrow> bool" where
  "lp_feasible c A_ub b_ub x \<longleftrightarrow>
     length x = length c \<and> list_all (\<lambda>v. 0 \<le> v) x
     \<and> list_all2 (\<lambda>row bi. dot row x \<le> bi) A_ub b_ub"

definition lp_optimal :: "vec \<Rightarrow> matrix \<Rightarrow> vec \<Rightarrow> vec \<Rightarrow> bool" where
  "lp_optimal c A_ub b_ub x \<longleftrightarrow>
     lp_feasible c A_ub b_ub x
     \<and> (\<forall>x'. lp_feasible c A_ub b_ub x' \<longrightarrow> dot c x \<le> dot c x')"

definition exact_result :: "vec \<Rightarrow> matrix \<Rightarrow> vec \<Rightarrow> OptimizeResult \<Rightarrow> bool" where
  "exact_result c A_ub b_ub result \<longleftrightarrow>
     lp_optimal c A_ub b_ub (res_x result) \<and> res_fun result = dot c (res_x result)"

section \<open>Shapes\<close>

definition ncols :: "matrix \<Rightarrow> nat" where
  "ncols A = (case A of [] \<Rightarrow> 0 | r # _ \<Rightarrow> length r)"

definition rectangular :: "matrix \<Rightarrow> bool" where
  "rectangular A = list_all (\<lambda>row. length row = ncols A) A"

section \<open>Display of the dual solution\<close>

text \<open>
  Python's built-in \<^verbatim>\<open>round(value, ndigits)\<close> only formats the table cells; it is a
  parameter of the display functions.
\<close>

type_synonym rounding = "real \<Rightarrow> nat \<Rightarrow> real"

definition armes_basic :: "string list" where
  "armes_basic = [''fusils'', ''Grenades'', ''Chars'', ''Mitrailleuses'', ''bazookas'']"

text \<open>
  \<^verbatim>\<open>
  benefit = price * 100000 if arme == "fusils" else price * 200000 if arme == "Grenades" else 0
  \<close>
\<close>

definition dual_benefit :: "string \<Rightarrow> real \<Rightarrow> real" where
  "dual_benefit arme price =
     (if arme = ''fusils'' then price * 100000
      else if arme = ''Grenades'' then price * 200000
      else 0)"

text \<open>
  \<^verbatim>\<open>
  def display_dual_results(prices, profit):
      armes = ["fusils", "Grenades", "Chars", "Mitrailleuses", "bazookas"]
      for arme, price in zip(armes, prices):
          benefit = ...
          table.add_row([arme, round(price * 1000000, 5), round(benefit * 1000000, 4)])
  \<close>
  The model returns the rows added to the table.
\<close>

definition display_dual_results :: "rounding \<Rightarrow> vec \<Rightarrow> (string \<times> real \<times> real) list" where
  "display_dual_results rnd prices =
     map (\<lambda>(arme, price).
            (arme, rnd (price * 1000000) 5, rnd (dual_benefit arme price * 1000000) 4))
         (zip armes_basic prices)"

text \<open>
  \<^verbatim>\<open>
  def display_dual_solution(prices, requirements, armes):
      total_profit = 0
      for arme, price, req in zip(armes, prices, requirements):
          profit = price * req
          total_profit += profit
          table.add_row([arme, round(price , 5), round(profit, 5)])
      return total_profit
  \<close>
  The loop runs over the triples of the three lists, as long as the shortest one; the
  model returns the rows and the total.
\<close>

fun display_dual_solution_loop ::
  "rounding \<Rightarrow> (string \<times> real \<times> real) list \<Rightarrow> real \<Rightarrow> (string \<times> real \<times> real) list
   \<Rightarrow> (string \<times> real \<times> real) list \<times> real" where
  "display_dual_solution_loop rnd [] total_profit table = (table, total_profit)"
| "display_dual_solution_loop rnd ((arme, price, req) # rest) total_profit table =
     (let profit = price * req in
      display_dual_solution_loop rnd rest (total_profit + profit)
        (table @ [(arme, rnd price 5, rnd profit 5)]))"

definition display_dual_solution ::
  "rounding \<Rightarrow> vec \<Rightarrow> vec \<Rightarrow> string list \<Rightarrow> (string \<times> real \<times> real) list \<times> real" where
  "display_dual_solution rnd prices reqs armes =
     display_dual_solution_loop rnd (zip armes (zip prices reqs)) 0 []"

section \<open>Sensitivity sweeps\<close>

text \<open>The data written into \<^verbatim>\<open>study_price_variation\<close> (scenario 1).\<close>

definition base_costs :: vec where
  "base_costs = [10, 12, 15]"

definition base_constraints :: matrix where
  "base_constraints =
     [[500, 300, 800],
      [1000, 2000, 1500],
      [10, 20, 15],
      [100, 80, 15],
      [80, 120, 200]]"

definition base_requirements :: vec where
  "base_requirements = [100000, 200000, 100, 400, 400]"

text \<open>\<^verbatim>\<open>xs[0] = v\<close> raises \<^verbatim>\<open>IndexError\<close> on an empty list.\<close>

definition set_first :: "vec \<Rightarrow> real \<Rightarrow> py_error + vec" where
  "set_first xs v = (case xs of [] \<Rightarrow> Inl IndexError | _ # rest \<Rightarrow> Inr (v # rest))"

text \<open>
  The state of a sweep: the two trajectories and the lines printed so far. In the basic
  sweep \<^verbatim>\<open>cost_totals.append(cost_total)\<close> appends whatever \<^verbatim>\<open>solve\<close> returned, so
  the entries are optional numbers; an iteration that appends \<^verbatim>\<open>None\<close> raises before it
  ends, and the lists are then lost with it.

  \<^verbatim>\<open>
  for price in price_range:
      costs[0] = price
      primal = PrimalProblem(costs, constraints, requirements)
      lots, cost_total = primal.solve()
      cost_totals.append(cost_total)
      dual = DualProblem(costs, constraints, requirements)
      prices, profit = dual.solve()
      profit_totals.append(profit * 1000000)
      lots_str = ", ".join([f"{round(lot, 2)}" for lot in lots])
      prices_str = ", ".join([f"{round(price * 1000000, 5)}" for price in prices])
      table.add_row([price, round(cost_total* 1000000, 4), lots_str, round(profit * 1000000, 4), prices_str])
  \<close>
  \<^verbatim>\<open>None * 1000000\<close> and iterating over \<^verbatim>\<open>None\<close> raise \<^verbatim>\<open>TypeError\<close>. The
  assignment \<^verbatim>\<open>costs[0] = price\<close> mutates the list, which is carried to the next
  iteration. The text of the table row is not modelled, only the exceptions that building
  it raises.
\<close>

fun study_price_variation_loop ::
  "solver \<Rightarrow> int list \<Rightarrow> vec \<Rightarrow> real option list \<times> real list \<times> string list
   \<Rightarrow> py_error + real option list \<times> real list \<times> string list" where
  "study_price_variation_loop linprog [] cs st = Inr st"
| "study_price_variation_loop linprog (price # rest) cs (cost_totals, profit_totals, out) =
     (case set_first cs (real_of_int price) of
        Inl e \<Rightarrow> Inl e
      | Inr cs' \<Rightarrow>
     (case PrimalProblem_solve linprog (PrimalProblem cs' base_constraints base_requirements) of
        Inl e \<Rightarrow> Inl e
      | Inr ((lots, cost_total), out1) \<Rightarrow>
     (case DualProblem (\<lambda>v. v) cs' base_constraints base_requirements of
        Inl e \<Rightarrow> Inl e
      | Inr dual \<Rightarrow>
     (case DualProblem_solve linprog dual of
        Inl e \<Rightarrow> Inl e
      | Inr ((prices, profit), out2) \<Rightarrow>
     (case profit of
        None \<Rightarrow> Inl TypeError
      | Some pr \<Rightarrow>
     (case lots of
        None \<Rightarrow> Inl TypeError
      | Some ls \<Rightarrow>
     (case prices of
        None \<Rightarrow> Inl TypeError
      | Some ps \<Rightarrow>
     (case cost_total of
        None \<Rightarrow> Inl TypeError
      | Some ct \<Rightarrow>
          study_price_variation_loop linprog rest cs'
            (cost_totals @ [cost_total], profit_totals @ [pr * 1000000],
             out @ out1 @ out2)))))))))"

text \<open>
  \<^verbatim>\<open>price_range = list(range(1, 30))\<close>; the function ends with
  \<^verbatim>\<open>plot_sensitivity_graph(price_range, cost_totals, profit_totals)\<close>: the model
  returns the three sequences handed to the plot, and the lines printed by the solves.
\<close>

definition study_price_variation ::
  "solver \<Rightarrow> py_error + int list \<times> real option list \<times> real list \<times> string list" where
  "study_price_variation linprog =
     (let price_range = [1..29] in
      case study_price_variation_loop linprog price_range base_costs ([], [], []) of
        Inl e \<Rightarrow> Inl e
      | Inr (cost_totals, profit_totals, out) \<Rightarrow>
          Inr (price_range, cost_totals, profit_totals, out))"




section \<open>A solver for scenario 1\<close>

text \<open>
  A concrete solver to run the model on: it answers the primal and the dual problem of
  scenario 1 with the first cost \<open>p\<close> in \<open>[0, 9]\<close> or at least \<open>10\<close> (the integer price
  points of both sweeps are among them) with an optimum, and reports failure on every
  other problem.
\<close>

definition scenario_price :: "real \<Rightarrow> bool" where
  "scenario_price p \<longleftrightarrow> (0 \<le> p \<and> p \<le> 9) \<or> 10 \<le> p"

definition scenario_lots :: "real \<Rightarrow> vec" where
  "scenario_lots p = (if p \<le> 9 then [200, 0, 0] else [0, 200 / 23, 2800 / 23])"

definition scenario_prices :: "real \<Rightarrow> vec" where
  "scenario_prices p =
     (if p \<le> 9 then [p / 500, 0, 0, 0, 0] else [6 / 575, 51 / 11500, 0, 0, 0])"

definition no_solution :: OptimizeResult where
  "no_solution = \<lparr>res_success = False, res_x = [], res_fun = 0\<rparr>"

definition scenario_solver :: solver where
  "scenario_solver c A_ub b_ub =
     (if c = [hd c, 12, 15] \<and> scenario_price (hd c)
         \<and> A_ub = map (map uminus) base_constraints
         \<and> b_ub = map uminus base_requirements
      then Inr \<lparr>res_success = True, res_x = scenario_lots (hd c),
                res_fun = dot c (scenario_lots (hd c))\<rparr>
      else if b_ub = [hd b_ub, 12, 15] \<and> scenario_price (hd b_ub)
         \<and> np_transpose (\<lambda>v. v) base_constraints = Inr A_ub
         \<and> c = map uminus base_requirements
      then Inr \<lparr>res_success = True, res_x = scenario_prices (hd b_ub),
                res_fun = dot c (scenario_prices (hd b_ub))\<rparr>
      else Inr no_solution)"


section \<open>What can be asked of a solver\<close>





section \<open>The constructors on the object store\<close>

text \<open>
  Python lists are mutable objects, and the constructors receive references to the
  caller's lists. To say which objects a constructor creates and which it leaves alone,
  the store is modelled as the sequence of objects allocated so far, an object's address
  being its position: a list of numbers, a list of references to rows, or a numpy array
  (which holds its numbers itself). Allocation appends to the store; nothing in the four
  constructors assigns into an existing list.
\<close>

type_synonym addr = nat

datatype pyobj = NumList vec | RowList "addr list" | NdArray matrix

type_synonym heap = "pyobj list"

text \<open>An instance of one of the four classes: its three attributes are references.\<close>

record problem_obj =
  costs_ref :: addr
  constraints_ref :: addr
  requirements_ref :: addr

definition heap_new :: "heap \<Rightarrow> pyobj \<Rightarrow> heap \<times> addr" where
  "heap_new h obj = (h @ [obj], length h)"

text \<open>Iterating over a list of numbers; anything else at the address is a type error.\<close>

definition get_nums :: "heap \<Rightarrow> addr \<Rightarrow> py_error + vec" where
  "get_nums h a =
     (if a < length h
      then (case h ! a of NumList v \<Rightarrow> Inr v | RowList _ \<Rightarrow> Inl TypeError
            | NdArray _ \<Rightarrow> Inl TypeError)
      else Inl TypeError)"

fun get_all_nums :: "heap \<Rightarrow> addr list \<Rightarrow> py_error + matrix" where
  "get_all_nums h [] = Inr []"
| "get_all_nums h (r # rs) =
     (case get_nums h r of
        Inl e \<Rightarrow> Inl e
      | Inr row \<Rightarrow>
          (case get_all_nums h rs of Inl e \<Rightarrow> Inl e | Inr rows \<Rightarrow> Inr (row # rows)))"

text \<open>The matrix held at an address: a list of row lists, or an array.\<close>

definition read_matrix :: "heap \<Rightarrow> addr \<Rightarrow> py_error + matrix" where
  "read_matrix h a =
     (if a < length h
      then (case h ! a of RowList rs \<Rightarrow> get_all_nums h rs | NdArray M \<Rightarrow> Inr M
            | NumList _ \<Rightarrow> Inl TypeError)
      else Inl TypeError)"

text \<open>\<^verbatim>\<open>[-r for r in requirements]\<close>: a new list.\<close>

definition neg_list :: "heap \<Rightarrow> addr \<Rightarrow> py_error + heap \<times> addr" where
  "neg_list h a =
     (case get_nums h a of
        Inl e \<Rightarrow> Inl e
      | Inr v \<Rightarrow> Inr (heap_new h (NumList (map (\<lambda>r. - r) v))))"

text \<open>
  \<^verbatim>\<open>[[-c for c in row] for row in constraints]\<close>: one new list per row, in order, then
  the new outer list.
\<close>

fun neg_rows :: "heap \<Rightarrow> addr list \<Rightarrow> py_error + heap \<times> addr list" where
  "neg_rows h [] = Inr (h, [])"
| "neg_rows h (row # rest) =
     (case neg_list h row of
        Inl e \<Rightarrow> Inl e
      | Inr (h1, a) \<Rightarrow>
          (case neg_rows h1 rest of
             Inl e \<Rightarrow> Inl e
           | Inr (h2, as) \<Rightarrow> Inr (h2, a # as)))"

definition neg_matrix :: "heap \<Rightarrow> addr \<Rightarrow> py_error + heap \<times> addr" where
  "neg_matrix h a =
     (if a < length h
      then (case h ! a of
              RowList rows \<Rightarrow>
                (case neg_rows h rows of
                   Inl e \<Rightarrow> Inl e
                 | Inr (h1, new_rows) \<Rightarrow> Inr (heap_new h1 (RowList new_rows)))
            | NumList _ \<Rightarrow> Inl TypeError
            | NdArray _ \<Rightarrow> Inl TypeError)
      else Inl TypeError)"

definition PrimalProblem_init ::
  "heap \<Rightarrow> addr \<Rightarrow> addr \<Rightarrow> addr \<Rightarrow> py_error + heap \<times> problem_obj" where
  "PrimalProblem_init h costs_a constraints_a requirements_a =
     (case neg_matrix h constraints_a of
        Inl e \<Rightarrow> Inl e
      | Inr (h1, A') \<Rightarrow>
          (case neg_list h1 requirements_a of
             Inl e \<Rightarrow> Inl e
           | Inr (h2, b') \<Rightarrow>
               Inr (h2, \<lparr>costs_ref = costs_a, constraints_ref = A',
                         requirements_ref = b'\<rparr>)))"

definition GeneralizedPrimalProblem_init ::
  "heap \<Rightarrow> addr \<Rightarrow> addr \<Rightarrow> addr \<Rightarrow> py_error + heap \<times> problem_obj" where
  "GeneralizedPrimalProblem_init h costs_a constraints_a requirements_a =
     (case neg_matrix h constraints_a of
        Inl e \<Rightarrow> Inl e
      | Inr (h1, A') \<Rightarrow>
          (case neg_list h1 requirements_a of
             Inl e \<Rightarrow> Inl e
           | Inr (h2, b') \<Rightarrow>
               Inr (h2, \<lparr>costs_ref = costs_a, constraints_ref = A',
                         requirements_ref = b'\<rparr>)))"

text \<open>\<^verbatim>\<open>np.transpose(constraints)\<close> reads the nested list and returns a new array.\<close>

definition transpose_new :: "conversion \<Rightarrow> heap \<Rightarrow> addr \<Rightarrow> py_error + heap \<times> addr" where
  "transpose_new conv h a =
     (case read_matrix h a of
        Inl e \<Rightarrow> Inl e
      | Inr A \<Rightarrow>
          (case np_transpose conv A of
             Inl e \<Rightarrow> Inl e
           | Inr At \<Rightarrow> Inr (heap_new h (NdArray At))))"

definition DualProblem_init ::
  "conversion \<Rightarrow> heap \<Rightarrow> addr \<Rightarrow> addr \<Rightarrow> addr \<Rightarrow> py_error + heap \<times> problem_obj" where
  "DualProblem_init conv h costs_a constraints_a requirements_a =
     (case neg_list h requirements_a of
        Inl e \<Rightarrow> Inl e
      | Inr (h1, c') \<Rightarrow>
          (case transpose_new conv h1 constraints_a of
             Inl e \<Rightarrow> Inl e
           | Inr (h2, A') \<Rightarrow>
               Inr (h2, \<lparr>costs_ref = c', constraints_ref = A',
                         requirements_ref = costs_a\<rparr>)))"

text \<open>\<^verbatim>\<open>[[v for v in row] for row in A_dual]\<close>: the rows of the array, copied into new lists.\<close>

fun copy_rows :: "heap \<Rightarrow> matrix \<Rightarrow> heap \<times> addr list" where
  "copy_rows h [] = (h, [])"
| "copy_rows h (row # rest) =
     (case heap_new h (NumList (map (\<lambda>v. v) row)) of
        (h1, a) \<Rightarrow> (case copy_rows h1 rest of (h2, as) \<Rightarrow> (h2, a # as)))"

definition GeneralizedDualProblem_init ::
  "conversion \<Rightarrow> heap \<Rightarrow> addr \<Rightarrow> addr \<Rightarrow> addr \<Rightarrow> py_error + heap \<times> problem_obj" where
  "GeneralizedDualProblem_init conv h costs_a constraints_a requirements_a =
     (case neg_list h requirements_a of
        Inl e \<Rightarrow> Inl e
      | Inr (h1, c') \<Rightarrow>
          (case transpose_new conv h1 constraints_a of
             Inl e \<Rightarrow> Inl e
           | Inr (h2, A_dual) \<Rightarrow>
               (case read_matrix h2 A_dual of
                  Inl e \<Rightarrow> Inl e
                | Inr At \<Rightarrow>
                    (case copy_rows h2 At of
                       (h3, rows) \<Rightarrow>
                         (case heap_new h3 (RowList rows) of
                            (h4, A') \<Rightarrow>
                              Inr (h4, \<lparr>costs_ref = c', constraints_ref = A',
                                        requirements_ref = costs_a\<rparr>))))))"

text \<open>
  A store extends another when every object of the old store is still there, unchanged,
  at its address.
\<close>

definition heap_extends :: "heap \<Rightarrow> heap \<Rightarrow> bool" where
  "heap_extends h h' \<longleftrightarrow> length h \<le> length h' \<and> take (length h) h' = h"

text \<open>An address is fresh for a store when nothing was allocated there.\<close>

definition fresh_in :: "heap \<Rightarrow> heap \<Rightarrow> addr \<Rightarrow> bool" where
  "fresh_in h h' a \<longleftrightarrow> length h \<le> a \<and> a < length h'"

text \<open>The rows of a list of rows are fresh as well.\<close>

definition fresh_rows :: "heap \<Rightarrow> heap \<Rightarrow> addr \<Rightarrow> bool" where
  "fresh_rows h h' a \<longleftrightarrow>
     a < length h'
     \<and> (case h' ! a of RowList rows \<Rightarrow> list_all (fresh_in h h') rows
         | NumList _ \<Rightarrow> True | NdArray _ \<Rightarrow> True)"

text \<open>A store holding the three lists of scenario 1, to run the constructors on.\<close>

definition scenario_heap :: heap where
  "scenario_heap =
     [NumList [10, 12, 15],
      NumList [500, 300, 800], NumList [1000, 2000, 1500], NumList [10, 20, 15],
      NumList [100, 80, 15], NumList [80, 120, 200],
      RowList [1, 2, 3, 4, 5],
      NumList [100000, 200000, 100, 400, 400]]"

section \<open>Systems of linear inequalities\<close>







section \<open>Properties of the formulation\<close>

lemma np_transpose_rectangular:
  assumes "rectangular A"
  shows "np_transpose conv A = Inr (map (\<lambda>j. map (\<lambda>row. conv (row ! j)) A) [0..<ncols A])"
  using assms
  by (cases A) (simp_all add: np_transpose_def rectangular_def ncols_def)

text \<open>
  C1. Constructing the primal problem, in the basic and in the generalized class, keeps the
  cost vector as the objective, negates every entry of the constraint matrix and every
  entry of the requirement vector, and does nothing else: the construction is a total
  function of its three arguments, so it raises no error.
\<close>

theorem primal_construction:
  "costs (PrimalProblem c A b) = c
   \<and> constraints (PrimalProblem c A b) = map (map uminus) A
   \<and> requirements (PrimalProblem c A b) = map uminus b
   \<and> length (constraints (PrimalProblem c A b)) = length A
   \<and> map length (constraints (PrimalProblem c A b)) = map length A
   \<and> GeneralizedPrimalProblem c A b = PrimalProblem c A b"
  by (simp add: PrimalProblem_def GeneralizedPrimalProblem_def comp_def)

lemma np_transpose_base:
  "np_transpose (\<lambda>v. v) base_constraints =
     Inr [[500, 1000, 10, 100, 80], [300, 2000, 20, 80, 120], [800, 1500, 15, 15, 200]]"
  by (simp add: np_transpose_def base_constraints_def upt_rec)

lemma rectangular_base: "rectangular base_constraints"
  by (simp add: rectangular_def ncols_def base_constraints_def)

lemma dual_problem_rectangular:
  assumes "rectangular A"
  shows "DualProblem conv c A b =
           Inr \<lparr>costs = map uminus b,
                constraints = map (\<lambda>j. map (\<lambda>row. conv (row ! j)) A) [0..<ncols A],
                requirements = c\<rparr>"
    and "GeneralizedDualProblem conv c A b = DualProblem conv c A b"
  using np_transpose_rectangular [OF assms]
  by (simp_all add: DualProblem_def GeneralizedDualProblem_def)

text \<open>
  C2. For a constraint matrix (rows of one length), both dual classes are constructed
  without error and agree: the objective is the negated requirement vector, the
  right-hand side is the cost vector as given, and the inequality matrix is the transpose
  of the constraint matrix as numpy holds it, entry \<open>(j, i)\<close> being entry \<open>(i, j)\<close> of the
  input converted to the array's element type, with no sign change; where the conversion
  keeps the entries, it is the transpose of the matrix as given. When the solver reports
  success, both \<^verbatim>\<open>solve\<close> methods return the solver's vector and the negation of its
  minimized objective value.
\<close>

theorem dual_construction:
  assumes "rectangular A"
  shows "\<exists>D. DualProblem conv c A b = Inr D \<and> GeneralizedDualProblem conv c A b = Inr D
           \<and> costs D = map uminus b
           \<and> requirements D = c
           \<and> length (constraints D) = ncols A
           \<and> (\<forall>j<ncols A. length (constraints D ! j) = length A
                 \<and> (\<forall>i<length A. constraints D ! j ! i = conv (A ! i ! j)))
           \<and> (list_all (list_all (\<lambda>v. conv v = v)) A \<longrightarrow>
                 (\<forall>j<ncols A. \<forall>i<length A. constraints D ! j ! i = A ! i ! j))
           \<and> (\<forall>linprog result.
                 linprog (costs D) (constraints D) (requirements D) = Inr result
                 \<and> res_success result \<longrightarrow>
                 DualProblem_solve linprog D
                   = Inr ((Some (res_x result), Some (- res_fun result)), [])
                 \<and> GeneralizedDualProblem_solve linprog D
                   = Inr ((Some (res_x result), Some (- res_fun result)), []))"
proof -
  let ?D = "\<lparr>costs = map uminus b,
             constraints = map (\<lambda>j. map (\<lambda>row. conv (row ! j)) A) [0..<ncols A],
             requirements = c\<rparr>"
  have D: "DualProblem conv c A b = Inr ?D" "GeneralizedDualProblem conv c A b = Inr ?D"
    using dual_problem_rectangular [OF assms, of conv c b] by simp_all
  have entries: "\<forall>j<ncols A. length (constraints ?D ! j) = length A
                 \<and> (\<forall>i<length A. constraints ?D ! j ! i = conv (A ! i ! j))"
    by simp
  have kept: "\<forall>j<ncols A. \<forall>i<length A. constraints ?D ! j ! i = A ! i ! j"
    if "list_all (list_all (\<lambda>v. conv v = v)) A"
  proof (intro allI impI)
    fix j i assume j: "j < ncols A" and i: "i < length A"
    from assms i have "length (A ! i) = ncols A"
      by (simp add: rectangular_def list_all_length)
    with that i j have "conv (A ! i ! j) = A ! i ! j"
      by (simp add: list_all_length)
    with i j show "constraints ?D ! j ! i = A ! i ! j" by simp
  qed
  have solve: "\<forall>linprog result.
                 linprog (costs ?D) (constraints ?D) (requirements ?D) = Inr result
                 \<and> res_success result \<longrightarrow>
                 DualProblem_solve linprog ?D
                   = Inr ((Some (res_x result), Some (- res_fun result)), [])
                 \<and> GeneralizedDualProblem_solve linprog ?D
                   = Inr ((Some (res_x result), Some (- res_fun result)), [])"
    by (simp add: DualProblem_solve_def GeneralizedDualProblem_solve_def)
  have "costs ?D = map uminus b" "requirements ?D = c" "length (constraints ?D) = ncols A"
    by simp_all
  with D entries kept solve show ?thesis by blast
qed

text \<open>
  The claim as stated, for every input, fails on a list with rows of two lengths, which
  numpy refuses, and on a list in which an integer above \<open>2\<^sup>5\<^sup>3\<close> stands beside a float,
  where the stored entry is the rounded one.
\<close>

theorem dual_construction_counterexample:
  "DualProblem (\<lambda>v. v) [1, 1] [[1], [2, 3]] [1, 1] = Inl ValueError
   \<and> GeneralizedDualProblem (\<lambda>v. v) [1, 1] [[1], [2, 3]] [1, 1] = Inl ValueError
   \<and> DualProblem float64_beside_half [1, 1] [[9007199254740993, 1 / 2]] [1]
       = Inr \<lparr>costs = [- 1], constraints = [[9007199254740992], [1 / 2]],
              requirements = [1, 1]\<rparr>
   \<and> GeneralizedDualProblem float64_beside_half [1, 1] [[9007199254740993, 1 / 2]] [1]
       = Inr \<lparr>costs = [- 1], constraints = [[9007199254740992], [1 / 2]],
              requirements = [1, 1]\<rparr>
   \<and> (9007199254740992 :: real) \<noteq> 9007199254740993"
  by (simp add: DualProblem_def GeneralizedDualProblem_def np_transpose_def
      float64_beside_half_def upt_rec)

lemma scenario_dual_result:
  "scenario_solver (map uminus base_requirements)
     [[500, 1000, 10, 100, 80], [300, 2000, 20, 80, 120], [800, 1500, 15, 15, 200]]
     [10, 12, 15]
   = Inr \<lparr>res_success = True, res_x = [6 / 575, 51 / 11500, 0, 0, 0], res_fun = - (44400 / 23)\<rparr>"
  by (simp add: scenario_solver_def np_transpose_base scenario_price_def scenario_prices_def
      dot_def base_requirements_def)

theorem dual_construction_witness:
  "rectangular base_constraints
   \<and> DualProblem (\<lambda>v. v) base_costs base_constraints base_requirements
       = Inr \<lparr>costs = [- 100000, - 200000, - 100, - 400, - 400],
              constraints = [[500, 1000, 10, 100, 80], [300, 2000, 20, 80, 120],
                             [800, 1500, 15, 15, 200]],
              requirements = [10, 12, 15]\<rparr>
   \<and> DualProblem_solve scenario_solver
        \<lparr>costs = [- 100000, - 200000, - 100, - 400, - 400],
              constraints = [[500, 1000, 10, 100, 80], [300, 2000, 20, 80, 120],
                             [800, 1500, 15, 15, 200]],
              requirements = [10, 12, 15]\<rparr>
       = Inr ((Some [6 / 575, 51 / 11500, 0, 0, 0], Some (44400 / 23)), [])"
proof -
  obtain D where D: "DualProblem (\<lambda>v. v) base_costs base_constraints base_requirements = Inr D"
    and sol: "\<forall>linprog result.
                 linprog (costs D) (constraints D) (requirements D) = Inr result
                 \<and> res_success result \<longrightarrow>
                 DualProblem_solve linprog D
                   = Inr ((Some (res_x result), Some (- res_fun result)), [])
                 \<and> GeneralizedDualProblem_solve linprog D
                   = Inr ((Some (res_x result), Some (- res_fun result)), [])"
    using dual_construction [OF rectangular_base, of "\<lambda>v. v" base_costs base_requirements]
    by blast
  have D_eq: "D = \<lparr>costs = [- 100000, - 200000, - 100, - 400, - 400],
              constraints = [[500, 1000, 10, 100, 80], [300, 2000, 20, 80, 120],
                             [800, 1500, 15, 15, 200]],
              requirements = [10, 12, 15]\<rparr>"
    using D by (simp add: DualProblem_def np_transpose_base base_requirements_def base_costs_def)
  have run: "scenario_solver (costs D) (constraints D) (requirements D)
      = Inr \<lparr>res_success = True, res_x = [6 / 575, 51 / 11500, 0, 0, 0], res_fun = - (44400 / 23)\<rparr>"
    using scenario_dual_result by (simp add: D_eq base_requirements_def)
  from sol run have "DualProblem_solve scenario_solver D
      = Inr ((Some [6 / 575, 51 / 11500, 0, 0, 0], Some (44400 / 23)), [])"
    by fastforce
  with D rectangular_base show ?thesis by (simp add: D_eq)
qed

text \<open>
  C4. When the solver returns a result whose \<^verbatim>\<open>success\<close> flag is false, every one of
  the four \<^verbatim>\<open>solve\<close> methods returns the pair \<^verbatim>\<open>(None, None)\<close>, without raising
  and without a numeric zero, and prints one non-empty diagnostic line.
\<close>

theorem failed_solve_returns_none:
  assumes "linprog (costs self) (constraints self) (requirements self) = Inr result"
    and "\<not> res_success result"
  shows "PrimalProblem_solve linprog self = Inr ((None, None), [msg_primal])
         \<and> DualProblem_solve linprog self = Inr ((None, None), [msg_dual])
         \<and> GeneralizedPrimalProblem_solve linprog self = Inr ((None, None), [msg_generalized])
         \<and> GeneralizedDualProblem_solve linprog self = Inr ((None, None), [msg_generalized])
         \<and> msg_primal \<noteq> [] \<and> msg_dual \<noteq> [] \<and> msg_generalized \<noteq> []"
  using assms
  by (simp add: PrimalProblem_solve_def DualProblem_solve_def
      GeneralizedPrimalProblem_solve_def GeneralizedDualProblem_solve_def
      msg_primal_def msg_dual_def msg_generalized_def)

theorem failed_solve_returns_none_witness:
  "scenario_solver [1] [[0]] [- 1] = Inr no_solution
   \<and> \<not> res_success no_solution
   \<and> GeneralizedPrimalProblem [1] [[0]] [1] = \<lparr>costs = [1], constraints = [[0]], requirements = [- 1]\<rparr>
   \<and> GeneralizedPrimalProblem_solve scenario_solver (GeneralizedPrimalProblem [1] [[0]] [1])
       = Inr ((None, None), [msg_generalized])
   \<and> PrimalProblem_solve scenario_solver (PrimalProblem [1] [[0]] [1])
       = Inr ((None, None), [''Pas de solution optimale.''])"
proof -
  have P: "GeneralizedPrimalProblem [1] [[0]] [1] = \<lparr>costs = [1], constraints = [[0]], requirements = [- 1]\<rparr>"
    "PrimalProblem [1] [[0]] [1] = \<lparr>costs = [1], constraints = [[0]], requirements = [- 1]\<rparr>"
    by (simp_all add: GeneralizedPrimalProblem_def PrimalProblem_def)
  have run: "scenario_solver [1] [[0]] [- 1] = Inr no_solution"
    by (simp add: scenario_solver_def)
  have nos: "\<not> res_success no_solution" by (simp add: no_solution_def)
  show ?thesis
    using failed_solve_returns_none [of scenario_solver
        "\<lparr>costs = [1], constraints = [[0]], requirements = [- 1]\<rparr>" no_solution] run nos
    by (simp add: P msg_primal_def)
qed

section \<open>Properties of the displays and of the solution shape\<close>

lemma display_dual_solution_loop_eq:
  "display_dual_solution_loop rnd xs tot table =
     (table @ map (\<lambda>(arme, price, req). (arme, rnd price 5, rnd (price * req) 5)) xs,
      tot + sum_list (map (\<lambda>(arme, price, req). price * req) xs))"
  by (induction xs arbitrary: tot table) (auto simp: Let_def)

text \<open>
  C6. The fixed display computes a weapon's benefit as the unit price times 100000 for
  \<^verbatim>\<open>fusils\<close>, times 200000 for \<^verbatim>\<open>Grenades\<close> and as zero for every other name; on five
  prices its rows show these values, which agree with price times requirement of
  scenario 1 exactly when the last three prices are zero. The generalized display computes
  price times requirement in every row and returns their sum.
\<close>

theorem dual_display_benefit:
  "dual_benefit arme price =
     price * (if arme = ''fusils'' then 100000 else if arme = ''Grenades'' then 200000 else 0)
   \<and> display_dual_results rnd [p1, p2, p3, p4, p5] =
       [(''fusils'', rnd (p1 * 1000000) 5, rnd (p1 * 100000 * 1000000) 4),
        (''Grenades'', rnd (p2 * 1000000) 5, rnd (p2 * 200000 * 1000000) 4),
        (''Chars'', rnd (p3 * 1000000) 5, rnd (0 * 1000000) 4),
        (''Mitrailleuses'', rnd (p4 * 1000000) 5, rnd (0 * 1000000) 4),
        (''bazookas'', rnd (p5 * 1000000) 5, rnd (0 * 1000000) 4)]
   \<and> (map2 dual_benefit armes_basic [p1, p2, p3, p4, p5]
        = map2 (*) [p1, p2, p3, p4, p5] base_requirements
       \<longleftrightarrow> p3 = 0 \<and> p4 = 0 \<and> p5 = 0)
   \<and> fst (display_dual_solution rnd prices reqs armes) =
       map (\<lambda>(arme, price, req). (arme, rnd price 5, rnd (price * req) 5))
         (zip armes (zip prices reqs))
   \<and> snd (display_dual_solution rnd prices reqs armes) =
       sum_list (map (\<lambda>(arme, price, req). price * req) (zip armes (zip prices reqs)))"
  by (simp add: dual_benefit_def display_dual_results_def armes_basic_def
      display_dual_solution_def display_dual_solution_loop_eq base_requirements_def)

lemma scenario_solver_length:
  assumes "scenario_solver c A b = Inr r" and "res_success r"
  shows "length (res_x r) = length c"
proof -
  have l3: "length c = 3" if "c = [hd c, 12, 15]"
    using that by (metis length_Cons list.size(3) numeral_3_eq_3)
  have l5: "length c = 5" if "c = map uminus base_requirements"
    using that by (simp add: base_requirements_def)
  show ?thesis
    using assms l3 l5
    by (auto simp: scenario_solver_def scenario_lots_def scenario_prices_def no_solution_def
        split: if_splits)
qed

lemma generalized_dual_same:
  "GeneralizedDualProblem conv c A b = DualProblem conv c A b"
  by (simp add: GeneralizedDualProblem_def DualProblem_def split: sum.splits)

text \<open>
  C8. Given the solver's contract that a successful result carries a vector as long as the
  objective it was given: when the solver succeeds on the primal problem, both primal
  \<^verbatim>\<open>solve\<close> methods return a vector of lot quantities as long as the cost vector, and
  when it succeeds on the dual problem, both dual \<^verbatim>\<open>solve\<close> methods return a vector of
  unit prices as long as the requirement vector.
\<close>

theorem solution_shape:
  assumes contract: "\<forall>c' A' b' r. linprog c' A' b' = Inr r \<and> res_success r
             \<longrightarrow> length (res_x r) = length c'"
    and rp: "linprog (costs (PrimalProblem c A b)) (constraints (PrimalProblem c A b))
               (requirements (PrimalProblem c A b)) = Inr rp"
    and sp: "res_success rp"
    and D: "DualProblem conv c A b = Inr D"
    and rd: "linprog (costs D) (constraints D) (requirements D) = Inr rd"
    and sd: "res_success rd"
  shows "\<exists>lots total_cost prices total_profit.
           PrimalProblem_solve linprog (PrimalProblem c A b)
             = Inr ((Some lots, Some total_cost), [])
         \<and> GeneralizedPrimalProblem_solve linprog (GeneralizedPrimalProblem c A b)
             = Inr ((Some lots, Some total_cost), [])
         \<and> length lots = length c
         \<and> GeneralizedDualProblem conv c A b = Inr D
         \<and> DualProblem_solve linprog D = Inr ((Some prices, Some total_profit), [])
         \<and> GeneralizedDualProblem_solve linprog D = Inr ((Some prices, Some total_profit), [])
         \<and> length prices = length b"
proof -
  have len: "length (res_x r) = length c'" if "linprog c' A' b' = Inr r" "res_success r"
    for c' A' b' r using contract that by blast
  have s1: "PrimalProblem_solve linprog (PrimalProblem c A b)
             = Inr ((Some (res_x rp), Some (res_fun rp)), [])"
    using rp sp by (simp add: PrimalProblem_solve_def)
  have s2: "GeneralizedPrimalProblem_solve linprog (GeneralizedPrimalProblem c A b)
             = Inr ((Some (res_x rp), Some (res_fun rp)), [])"
    using rp sp
    by (simp add: GeneralizedPrimalProblem_solve_def GeneralizedPrimalProblem_def
        PrimalProblem_def)
  have l1: "length (res_x rp) = length c"
    using len [OF rp sp] by (simp add: PrimalProblem_def)
  have g: "GeneralizedDualProblem conv c A b = Inr D"
    using D by (simp add: generalized_dual_same)
  have s3: "DualProblem_solve linprog D = Inr ((Some (res_x rd), Some (- res_fun rd)), [])"
    using rd sd by (simp add: DualProblem_solve_def)
  have s4: "GeneralizedDualProblem_solve linprog D
             = Inr ((Some (res_x rd), Some (- res_fun rd)), [])"
    using rd sd by (simp add: GeneralizedDualProblem_solve_def)
  from D have "costs D = map uminus b"
    by (auto simp: DualProblem_def split: sum.splits)
  with len [OF rd sd] have l2: "length (res_x rd) = length b" by simp
  from s1 s2 l1 g s3 s4 l2 show ?thesis by blast
qed

lemma scenario_primal_call:
  "scenario_solver (costs (PrimalProblem base_costs base_constraints base_requirements))
     (constraints (PrimalProblem base_costs base_constraints base_requirements))
     (requirements (PrimalProblem base_costs base_constraints base_requirements))
   = Inr \<lparr>res_success = True, res_x = [0, 200 / 23, 2800 / 23], res_fun = 44400 / 23\<rparr>"
  by (simp add: PrimalProblem_def scenario_solver_def base_costs_def
      scenario_price_def scenario_lots_def dot_def)

lemma scenario_dual_call:
  "DualProblem (\<lambda>v. v) base_costs base_constraints base_requirements
     = Inr \<lparr>costs = map uminus base_requirements,
            constraints = [[500, 1000, 10, 100, 80], [300, 2000, 20, 80, 120],
                           [800, 1500, 15, 15, 200]],
            requirements = base_costs\<rparr>"
  "scenario_solver
     (costs \<lparr>costs = map uminus base_requirements,
            constraints = [[500, 1000, 10, 100, 80], [300, 2000, 20, 80, 120],
                           [800, 1500, 15, 15, 200]],
            requirements = base_costs\<rparr>)
     (constraints \<lparr>costs = map uminus base_requirements,
            constraints = [[500, 1000, 10, 100, 80], [300, 2000, 20, 80, 120],
                           [800, 1500, 15, 15, 200]],
            requirements = base_costs\<rparr>)
     (requirements \<lparr>costs = map uminus base_requirements,
            constraints = [[500, 1000, 10, 100, 80], [300, 2000, 20, 80, 120],
                           [800, 1500, 15, 15, 200]],
            requirements = base_costs\<rparr>)
   = Inr \<lparr>res_success = True, res_x = [6 / 575, 51 / 11500, 0, 0, 0],
          res_fun = - (44400 / 23)\<rparr>"
  using scenario_dual_result
  by (simp_all add: DualProblem_def np_transpose_base base_costs_def)

theorem solution_shape_witness:
  "PrimalProblem_solve scenario_solver (PrimalProblem base_costs base_constraints base_requirements)
     = Inr ((Some [0, 200 / 23, 2800 / 23], Some (44400 / 23)), [])
   \<and> GeneralizedPrimalProblem_solve scenario_solver
       (GeneralizedPrimalProblem base_costs base_constraints base_requirements)
     = Inr ((Some [0, 200 / 23, 2800 / 23], Some (44400 / 23)), [])
   \<and> length [0, 200 / 23, 2800 / 23 :: real] = length base_costs
   \<and> (\<exists>D. DualProblem (\<lambda>v. v) base_costs base_constraints base_requirements = Inr D
        \<and> GeneralizedDualProblem (\<lambda>v. v) base_costs base_constraints base_requirements = Inr D
        \<and> DualProblem_solve scenario_solver D
            = Inr ((Some [6 / 575, 51 / 11500, 0, 0, 0], Some (44400 / 23)), [])
        \<and> GeneralizedDualProblem_solve scenario_solver D
            = Inr ((Some [6 / 575, 51 / 11500, 0, 0, 0], Some (44400 / 23)), []))
   \<and> length [6 / 575, 51 / 11500, 0, 0, 0 :: real] = length base_requirements"
proof -
  let ?D = "\<lparr>costs = map uminus base_requirements,
            constraints = [[500, 1000, 10, 100, 80], [300, 2000, 20, 80, 120],
                           [800, 1500, 15, 15, 200]],
            requirements = base_costs\<rparr>"
  have contract: "\<forall>c' A' b' r. scenario_solver c' A' b' = Inr r \<and> res_success r
      \<longrightarrow> length (res_x r) = length c'"
    using scenario_solver_length by blast
  have sp: "res_success \<lparr>res_success = True, res_x = [0, 200 / 23, 2800 / 23],
      res_fun = 44400 / 23\<rparr>" by simp
  have sd: "res_success \<lparr>res_success = True, res_x = [6 / 575, 51 / 11500, 0, 0, 0],
      res_fun = - (44400 / 23)\<rparr>" by simp
  from solution_shape [OF contract scenario_primal_call sp scenario_dual_call(1)
      scenario_dual_call(2) sd]
  obtain lots total_cost prices total_profit where
    s1: "PrimalProblem_solve scenario_solver
           (PrimalProblem base_costs base_constraints base_requirements)
           = Inr ((Some lots, Some total_cost), [])"
    and s2: "GeneralizedPrimalProblem_solve scenario_solver
           (GeneralizedPrimalProblem base_costs base_constraints base_requirements)
           = Inr ((Some lots, Some total_cost), [])"
    and l1: "length lots = length base_costs"
    and g: "GeneralizedDualProblem (\<lambda>v. v) base_costs base_constraints base_requirements
           = Inr ?D"
    and s3: "DualProblem_solve scenario_solver ?D = Inr ((Some prices, Some total_profit), [])"
    and s4: "GeneralizedDualProblem_solve scenario_solver ?D
           = Inr ((Some prices, Some total_profit), [])"
    and l2: "length prices = length base_requirements"
    by blast
  have e1: "PrimalProblem_solve scenario_solver
           (PrimalProblem base_costs base_constraints base_requirements)
           = Inr ((Some [0, 200 / 23, 2800 / 23], Some (44400 / 23)), [])"
    using scenario_primal_call by (simp add: PrimalProblem_solve_def)
  have e3: "DualProblem_solve scenario_solver ?D
           = Inr ((Some [6 / 575, 51 / 11500, 0, 0, 0], Some (44400 / 23)), [])"
    using scenario_dual_call(2) by (simp add: DualProblem_solve_def)
  from s1 e1 have lots: "lots = [0, 200 / 23, 2800 / 23]" and tc: "total_cost = 44400 / 23"
    by simp_all
  from s3 e3 have prices: "prices = [6 / 575, 51 / 11500, 0, 0, 0]"
    and tp: "total_profit = 44400 / 23"
    by simp_all
  from s1 s2 l1 g s3 s4 l2 scenario_dual_call(1) show ?thesis
    unfolding lots tc prices tp by blast
qed

section \<open>Properties of the basic sweep\<close>

lemma PrimalProblem_solve_cases:
  "(\<exists>e. PrimalProblem_solve lp P = Inl e)
   \<or> PrimalProblem_solve lp P = Inr ((None, None), [msg_primal])
   \<or> (\<exists>x v. PrimalProblem_solve lp P = Inr ((Some x, Some v), []))"
  by (auto simp: PrimalProblem_solve_def split: sum.splits)

lemma DualProblem_solve_cases:
  "(\<exists>e. DualProblem_solve lp P = Inl e)
   \<or> DualProblem_solve lp P = Inr ((None, None), [msg_dual])
   \<or> (\<exists>x v. DualProblem_solve lp P = Inr ((Some x, Some v), []))"
  by (auto simp: DualProblem_solve_def split: sum.splits)

lemma study_price_variation_loop_step:
  assumes "PrimalProblem_solve lp (PrimalProblem (real_of_int p # t) base_constraints base_requirements)
             = Inr ((Some x, Some v), [])"
    and "DualProblem (\<lambda>v. v) (real_of_int p # t) base_constraints base_requirements = Inr D"
    and "DualProblem_solve lp D = Inr ((Some y, Some w), [])"
  shows "study_price_variation_loop lp (p # ps) (c0 # t) (ct, pt, out)
         = study_price_variation_loop lp ps (real_of_int p # t)
             (ct @ [Some v], pt @ [w * 1000000], out)"
  using assms by (simp add: set_first_def)

lemma study_price_variation_loop_step_inv:
  assumes "study_price_variation_loop lp (p # ps) (c0 # t) (ct, pt, out) = Inr st"
  shows "\<exists>x v D y w.
           PrimalProblem_solve lp (PrimalProblem (real_of_int p # t) base_constraints base_requirements)
             = Inr ((Some x, Some v), [])
         \<and> DualProblem (\<lambda>v. v) (real_of_int p # t) base_constraints base_requirements = Inr D
         \<and> DualProblem_solve lp D = Inr ((Some y, Some w), [])"
proof -
  let ?P = "PrimalProblem (real_of_int p # t) base_constraints base_requirements"
  from assms obtain D where D: "DualProblem (\<lambda>v. v) (real_of_int p # t) base_constraints base_requirements = Inr D"
    by (auto simp: set_first_def split: sum.splits prod.splits option.splits)
  from PrimalProblem_solve_cases [of lp ?P] DualProblem_solve_cases [of lp D] assms D
  show ?thesis
    by (auto simp: set_first_def)
qed

lemma study_price_variation_loop_sound:
  assumes "study_price_variation_loop lp ps (c0 # t) (ct, pt, out) = Inr (ct', pt', out')"
  shows "\<exists>vs ws. ct' = ct @ map Some vs \<and> pt' = pt @ map (\<lambda>w. w * 1000000) ws \<and> out' = out
           \<and> list_all2 (\<lambda>p v. \<exists>x. PrimalProblem_solve lp
                  (PrimalProblem (real_of_int p # t) base_constraints base_requirements)
                  = Inr ((Some x, Some v), [])) ps vs
           \<and> list_all2 (\<lambda>p w. \<exists>D y.
                  DualProblem (\<lambda>v. v) (real_of_int p # t) base_constraints base_requirements = Inr D
                  \<and> DualProblem_solve lp D = Inr ((Some y, Some w), [])) ps ws"
  using assms
proof (induction ps arbitrary: c0 ct pt out)
  case Nil
  then show ?case by simp
next
  case (Cons p ps)
  from study_price_variation_loop_step_inv [OF Cons.prems]
  obtain x v D y w where
    P: "PrimalProblem_solve lp (PrimalProblem (real_of_int p # t) base_constraints base_requirements)
          = Inr ((Some x, Some v), [])"
    and D: "DualProblem (\<lambda>v. v) (real_of_int p # t) base_constraints base_requirements = Inr D"
    and S: "DualProblem_solve lp D = Inr ((Some y, Some w), [])"
    by blast
  from Cons.prems study_price_variation_loop_step [OF P D S]
  have "study_price_variation_loop lp ps (real_of_int p # t)
          (ct @ [Some v], pt @ [w * 1000000], out) = Inr (ct', pt', out')"
    by simp
  from Cons.IH [OF this] obtain vs ws where
    r: "ct' = (ct @ [Some v]) @ map Some vs" "pt' = (pt @ [w * 1000000]) @ map (\<lambda>w. w * 1000000) ws"
      "out' = out"
    and l1: "list_all2 (\<lambda>p v. \<exists>x. PrimalProblem_solve lp
                  (PrimalProblem (real_of_int p # t) base_constraints base_requirements)
                  = Inr ((Some x, Some v), [])) ps vs"
    and l2: "list_all2 (\<lambda>p w. \<exists>D y.
                  DualProblem (\<lambda>v. v) (real_of_int p # t) base_constraints base_requirements = Inr D
                  \<and> DualProblem_solve lp D = Inr ((Some y, Some w), [])) ps ws"
    by blast
  have a: "ct' = ct @ map Some (v # vs)" using r by simp
  have b: "pt' = pt @ map (\<lambda>w. w * 1000000) (w # ws)" using r by simp
  have c: "list_all2 (\<lambda>p v. \<exists>x. PrimalProblem_solve lp
                  (PrimalProblem (real_of_int p # t) base_constraints base_requirements)
                  = Inr ((Some x, Some v), [])) (p # ps) (v # vs)"
    using l1 P by auto
  have d: "list_all2 (\<lambda>p w. \<exists>D y.
                  DualProblem (\<lambda>v. v) (real_of_int p # t) base_constraints base_requirements = Inr D
                  \<and> DualProblem_solve lp D = Inr ((Some y, Some w), [])) (p # ps) (w # ws)"
    using l2 D S by auto
  from a b c d r(3) show ?case by blast
qed


section \<open>Weak duality and the solver for scenario 1\<close>

lemma dot_sum: "dot u v = (\<Sum>i<min (length u) (length v). u ! i * v ! i)"
proof -
  have "dot u v = (\<Sum>i = 0..<length (zip u v). map2 (*) u v ! i)"
    unfolding dot_def by (subst sum_list_sum_nth) simp
  also have "\<dots> = (\<Sum>i = 0..<min (length u) (length v). u ! i * v ! i)"
    by (rule sum.cong) auto
  finally show ?thesis by (simp add: atLeast0LessThan)
qed

lemma dot_uminus_left: "dot (map uminus u) v = - dot u v"
  by (simp add: dot_sum sum_negf)

lemma lp_feasible_iff:
  "lp_feasible c A b x \<longleftrightarrow>
     length x = length c \<and> (\<forall>j<length x. 0 \<le> x ! j)
     \<and> length A = length b \<and> (\<forall>i<length A. dot (A ! i) x \<le> b ! i)"
  by (auto simp: lp_feasible_def list_all_length list_all2_conv_all_nth)

lemma weak_duality:
  assumes rect: "rectangular A" and nc: "ncols A = length c" and nr: "length A = length b"
    and At: "np_transpose (\<lambda>v. v) A = Inr At"
    and fx: "lp_feasible c (map (map uminus) A) (map uminus b) x"
    and fy: "lp_feasible (map uminus b) At c y"
  shows "dot b y \<le> dot c x"
proof -
  let ?m = "length A" and ?n = "length c"
  have At_eq: "At = map (\<lambda>j. map (\<lambda>row. row ! j) A) [0..<?n]"
    using np_transpose_rectangular [OF rect] At nc by simp
  have row_len: "length (A ! i) = ?n" if "i < ?m" for i
    using rect nc that by (simp add: rectangular_def list_all_length)
  have lx: "length x = ?n" and x0: "\<And>j. j < ?n \<Longrightarrow> 0 \<le> x ! j"
    using fx by (simp_all add: lp_feasible_iff)
  have ly: "length y = ?m" and y0: "\<And>i. i < ?m \<Longrightarrow> 0 \<le> y ! i"
    using fy nr by (simp_all add: lp_feasible_iff)
  have px: "b ! i \<le> dot (A ! i) x" if "i < ?m" for i
  proof -
    from fx have "\<forall>i<length (map (map uminus) A).
        dot (map (map uminus) A ! i) x \<le> map uminus b ! i"
      unfolding lp_feasible_iff by blast
    with that have "dot (map (map uminus) A ! i) x \<le> map uminus b ! i"
      by auto
    with that nr show ?thesis by (simp add: dot_uminus_left)
  qed
  have py: "dot (At ! j) y \<le> c ! j" if "j < ?n" for j
  proof -
    from fy have "length At = length c" "\<forall>j<length At. dot (At ! j) y \<le> c ! j"
      unfolding lp_feasible_iff by blast+
    with that show ?thesis by auto
  qed
  have col: "dot (At ! j) y = (\<Sum>i<?m. A ! i ! j * y ! i)" if "j < ?n" for j
    using that ly by (simp add: At_eq dot_sum)
  have row: "dot (A ! i) x = (\<Sum>j<?n. A ! i ! j * x ! j)" if "i < ?m" for i
    using that lx row_len [OF that] by (simp add: dot_sum)
  have "dot b y = (\<Sum>i<?m. b ! i * y ! i)"
    using ly nr by (simp add: dot_sum)
  also have "\<dots> \<le> (\<Sum>i<?m. dot (A ! i) x * y ! i)"
    by (rule sum_mono) (simp add: px y0 mult_right_mono)
  also have "\<dots> = (\<Sum>i<?m. \<Sum>j<?n. A ! i ! j * x ! j * y ! i)"
    by (rule sum.cong) (simp_all add: row sum_distrib_right)
  also have "\<dots> = (\<Sum>j<?n. \<Sum>i<?m. A ! i ! j * x ! j * y ! i)"
    by (rule sum.swap)
  also have "\<dots> = (\<Sum>j<?n. dot (At ! j) y * x ! j)"
    by (rule sum.cong) (simp_all add: col sum_distrib_left sum_distrib_right mult_ac)
  also have "\<dots> \<le> (\<Sum>j<?n. c ! j * x ! j)"
    by (rule sum_mono) (simp add: py x0 mult_right_mono)
  also have "\<dots> = dot c x"
    using lx by (simp add: dot_sum)
  finally show ?thesis .
qed

lemma scenario_primal_feasible:
  "lp_feasible [p, 12, 15] (map (map uminus) base_constraints) (map uminus base_requirements)
     (scenario_lots p)"
  by (simp add: lp_feasible_def scenario_lots_def base_constraints_def base_requirements_def
      dot_def)

lemma scenario_dual_feasible:
  assumes "scenario_price p"
  shows "lp_feasible (map uminus base_requirements)
     [[500, 1000, 10, 100, 80], [300, 2000, 20, 80, 120], [800, 1500, 15, 15, 200]]
     [p, 12, 15] (scenario_prices p)"
  using assms
  by (auto simp: lp_feasible_def scenario_prices_def scenario_price_def base_requirements_def
      dot_def)

lemma scenario_values_agree:
  assumes "scenario_price p"
  shows "dot [p, 12, 15] (scenario_lots p) = dot base_requirements (scenario_prices p)"
  using assms
  by (auto simp: scenario_prices_def scenario_lots_def scenario_price_def base_requirements_def
      dot_def)

lemma base_shape:
  "rectangular base_constraints" "ncols base_constraints = length [p, 12, 15 :: real]"
  "length base_constraints = length base_requirements"
  by (simp_all add: rectangular_def ncols_def base_constraints_def base_requirements_def)

lemma scenario_primal_optimal:
  assumes "scenario_price p"
  shows "lp_optimal [p, 12, 15] (map (map uminus) base_constraints)
           (map uminus base_requirements) (scenario_lots p)"
  unfolding lp_optimal_def
proof (intro conjI allI impI)
  show "lp_feasible [p, 12, 15] (map (map uminus) base_constraints)
          (map uminus base_requirements) (scenario_lots p)"
    by (rule scenario_primal_feasible)
  fix x'
  assume "lp_feasible [p, 12, 15] (map (map uminus) base_constraints)
            (map uminus base_requirements) x'"
  from weak_duality [OF base_shape np_transpose_base this scenario_dual_feasible [OF assms]]
  show "dot [p, 12, 15] (scenario_lots p) \<le> dot [p, 12, 15] x'"
    by (simp add: scenario_values_agree [OF assms])
qed

lemma scenario_dual_optimal:
  assumes "scenario_price p"
  shows "lp_optimal (map uminus base_requirements)
     [[500, 1000, 10, 100, 80], [300, 2000, 20, 80, 120], [800, 1500, 15, 15, 200]]
     [p, 12, 15] (scenario_prices p)"
  unfolding lp_optimal_def
proof (intro conjI allI impI)
  show "lp_feasible (map uminus base_requirements)
     [[500, 1000, 10, 100, 80], [300, 2000, 20, 80, 120], [800, 1500, 15, 15, 200]]
     [p, 12, 15] (scenario_prices p)"
    by (rule scenario_dual_feasible [OF assms])
  fix y'
  assume "lp_feasible (map uminus base_requirements)
     [[500, 1000, 10, 100, 80], [300, 2000, 20, 80, 120], [800, 1500, 15, 15, 200]]
     [p, 12, 15] y'"
  from weak_duality [OF base_shape np_transpose_base scenario_primal_feasible this]
  show "dot (map uminus base_requirements) (scenario_prices p)
          \<le> dot (map uminus base_requirements) y'"
    by (simp add: scenario_values_agree [OF assms] dot_uminus_left)
qed

lemma scenario_solver_exact:
  assumes "scenario_solver c A b = Inr r" and "res_success r"
  shows "exact_result c A b r"
proof -
  consider (primal) "c = [hd c, 12, 15]" "scenario_price (hd c)"
      "A = map (map uminus) base_constraints" "b = map uminus base_requirements"
      "r = \<lparr>res_success = True, res_x = scenario_lots (hd c),
                res_fun = dot c (scenario_lots (hd c))\<rparr>"
    | (dual) "b = [hd b, 12, 15]" "scenario_price (hd b)"
      "np_transpose (\<lambda>v. v) base_constraints = Inr A" "c = map uminus base_requirements"
      "r = \<lparr>res_success = True, res_x = scenario_prices (hd b),
                res_fun = dot c (scenario_prices (hd b))\<rparr>"
    using assms by (auto simp: scenario_solver_def no_solution_def split: if_splits)
  then show ?thesis
  proof cases
    case primal
    from scenario_primal_optimal [OF primal(2)] primal(1)
    have "lp_optimal c A b (scenario_lots (hd c))"
      by (simp add: primal(3,4))
    then show ?thesis by (simp add: exact_result_def primal(5))
  next
    case dual
    from dual(3) have A: "A = [[500, 1000, 10, 100, 80], [300, 2000, 20, 80, 120],
        [800, 1500, 15, 15, 200]]"
      by (simp add: np_transpose_base)
    from scenario_dual_optimal [OF dual(2)] dual(1)
    have "lp_optimal c A b (scenario_prices (hd b))"
      by (simp add: A dual(4))
    then show ?thesis by (simp add: exact_result_def dual(5))
  qed
qed

section \<open>Trajectories of the basic sweep\<close>

lemma study_price_variation_sound:
  assumes "study_price_variation lp = Inr (prices, cost_totals, profit_totals, out)"
  shows "prices = [1..29] \<and> out = []
         \<and> (\<exists>vs ws. cost_totals = map Some vs \<and> profit_totals = map (\<lambda>w. w * 1000000) ws
           \<and> list_all2 (\<lambda>p v. \<exists>x. PrimalProblem_solve lp
                  (PrimalProblem [real_of_int p, 12, 15] base_constraints base_requirements)
                  = Inr ((Some x, Some v), [])) [1..29] vs
           \<and> list_all2 (\<lambda>p w. \<exists>D y.
                  DualProblem (\<lambda>v. v) [real_of_int p, 12, 15] base_constraints base_requirements = Inr D
                  \<and> DualProblem_solve lp D = Inr ((Some y, Some w), [])) [1..29] ws)"
proof -
  from assms have loop: "study_price_variation_loop lp [1..29] (10 # [12, 15]) ([], [], [])
      = Inr (cost_totals, profit_totals, out)" and p: "prices = [1..29]"
    by (auto simp: study_price_variation_def base_costs_def Let_def
        split: sum.splits prod.splits)
  from study_price_variation_loop_sound [OF loop] p show ?thesis by auto
qed

text \<open>
  C9. When the basic sweep returns, every entry of the cost trajectory is the cost the
  primal solve returned at that price, unscaled, and every entry of the profit trajectory
  is the profit the dual solve returned at that price multiplied by 1000000; so at a
  price where cost and profit agree (strong duality), the profit entry is 1000000 times
  the cost entry.
\<close>

theorem basic_sweep_profit_scaled:
  assumes "study_price_variation lp = Inr (prices, cost_totals, profit_totals, out)"
  shows "\<exists>vs ws. cost_totals = map Some vs \<and> profit_totals = map (\<lambda>w. w * 1000000) ws
           \<and> list_all2 (\<lambda>p v. \<exists>x. PrimalProblem_solve lp
                  (PrimalProblem [real_of_int p, 12, 15] base_constraints base_requirements)
                  = Inr ((Some x, Some v), [])) prices vs
           \<and> list_all2 (\<lambda>p w. \<exists>D y.
                  DualProblem (\<lambda>v. v) [real_of_int p, 12, 15] base_constraints base_requirements = Inr D
                  \<and> DualProblem_solve lp D = Inr ((Some y, Some w), [])) prices ws
           \<and> (\<forall>i<length prices. vs ! i = ws ! i
                 \<longrightarrow> cost_totals ! i = Some (vs ! i)
                     \<and> profit_totals ! i = 1000000 * vs ! i)"
proof -
  from study_price_variation_sound [OF assms] obtain vs ws where
    p: "prices = [1..29]" and c: "cost_totals = map Some vs"
    and w: "profit_totals = map (\<lambda>w. w * 1000000) ws"
    and l1: "list_all2 (\<lambda>p v. \<exists>x. PrimalProblem_solve lp
                  (PrimalProblem [real_of_int p, 12, 15] base_constraints base_requirements)
                  = Inr ((Some x, Some v), [])) [1..29] vs"
    and l2: "list_all2 (\<lambda>p w. \<exists>D y.
                  DualProblem (\<lambda>v. v) [real_of_int p, 12, 15] base_constraints base_requirements = Inr D
                  \<and> DualProblem_solve lp D = Inr ((Some y, Some w), [])) [1..29] ws"
    by blast
  have lv: "length vs = length prices" and lw: "length ws = length prices"
    using l1 l2 p by (simp_all add: list_all2_lengthD [symmetric])
  have "\<forall>i<length prices. vs ! i = ws ! i
          \<longrightarrow> cost_totals ! i = Some (vs ! i) \<and> profit_totals ! i = 1000000 * vs ! i"
    using lv lw by (simp add: c w)
  with p c w l1 l2 show ?thesis by blast
qed




lemma upto_1_29: "[1..29::int] = [1,2,3,4,5,6,7,8,9,10,11,12,13,14,15,16,17,18,19,20,21,22,23,24,25,26,27,28,29]"
  by (simp add: upto.simps)

lemma scenario_sweep_run:
  "study_price_variation scenario_solver =
     Inr ([1..29],
          map Some ([200, 400, 600, 800, 1000, 1200, 1400, 1600, 1800] @ replicate 20 (44400 / 23)),
          map (\<lambda>w. w * 1000000)
            ([200, 400, 600, 800, 1000, 1200, 1400, 1600, 1800] @ replicate 20 (44400 / 23)),
          [])"
  unfolding study_price_variation_def Let_def upto_1_29 base_costs_def
  by (simp add: set_first_def PrimalProblem_solve_def PrimalProblem_def
      DualProblem_def DualProblem_solve_def np_transpose_base
      scenario_solver_def scenario_price_def scenario_lots_def scenario_prices_def dot_def
      base_requirements_def numeral_eq_Suc)

lemma scenario_sweep_dual:
  assumes "1 \<le> p"
  shows "\<exists>D y w. DualProblem (\<lambda>v. v) [real_of_int p, 12, 15] base_constraints base_requirements = Inr D
           \<and> DualProblem_solve scenario_solver D = Inr ((Some y, Some w), [])"
proof -
  from assms have "p \<le> 9 \<or> 10 \<le> p" by arith
  with assms have "scenario_price (real_of_int p)"
    unfolding scenario_price_def by (metis of_int_le_iff of_int_numeral of_int_0_le_iff order_trans zero_le_one)
  then show ?thesis
    by (simp add: DualProblem_solve_def DualProblem_def scenario_solver_def np_transpose_base)
qed

theorem basic_sweep_profit_scaled_witness:
  "study_price_variation scenario_solver =
     Inr ([1..29],
          map Some ([200, 400, 600, 800, 1000, 1200, 1400, 1600, 1800] @ replicate 20 (44400 / 23)),
          map (\<lambda>w. w * 1000000)
            ([200, 400, 600, 800, 1000, 1200, 1400, 1600, 1800] @ replicate 20 (44400 / 23)),
          [])
   \<and> map (\<lambda>w. w * 1000000)
        ([200, 400, 600, 800, 1000, 1200, 1400, 1600, 1800] @ replicate 20 (44400 / 23)) ! 9
     = 1000000 * (44400 / 23 :: real)"
proof -
  let ?V = "[200, 400, 600, 800, 1000, 1200, 1400, 1600, 1800] @ replicate 20 (44400 / 23 :: real)"
  from basic_sweep_profit_scaled [OF scenario_sweep_run] obtain vs ws where
    c: "map Some ?V = map Some vs" and w: "map (\<lambda>w. w * 1000000) ?V = map (\<lambda>w. w * 1000000) ws"
    and eq: "\<forall>i<length [1..29 :: int]. vs ! i = ws ! i
                 \<longrightarrow> map Some ?V ! i = Some (vs ! i)
                     \<and> map (\<lambda>w. w * 1000000) ?V ! i = 1000000 * vs ! i"
    by blast
  have inj1: "inj (Some :: real \<Rightarrow> real option)" by simp
  have inj2: "inj (\<lambda>w :: real. w * 1000000)" by (simp add: inj_on_def)
  from c inj1 have vs: "vs = ?V" by (metis inj_map_eq_map)
  from w inj2 have ws: "ws = ?V" by (metis inj_map_eq_map)
  have v9: "?V ! 9 = 44400 / 23" by (simp add: nth_append)
  have "(9::nat) < length [1..29 :: int]" by simp
  with eq have "vs ! 9 = ws ! 9 \<longrightarrow> map (\<lambda>w. w * 1000000) ?V ! 9 = 1000000 * vs ! 9"
    by blast
  then have "map (\<lambda>w. w * 1000000) ?V ! 9 = 1000000 * (44400 / 23)"
    unfolding vs ws v9 by blast
  with scenario_sweep_run show ?thesis by blast
qed


section \<open>Properties of the constructors on the object store\<close>

lemma heap_extends_append: "heap_extends h (h @ ext)"
  by (simp add: heap_extends_def)

lemma get_nums_append:
  "get_nums h a = Inr v \<Longrightarrow> get_nums (h @ ext) a = Inr v"
  by (auto simp: get_nums_def nth_append split: if_splits)

lemma get_all_nums_append:
  "get_all_nums h rs = Inr A \<Longrightarrow> get_all_nums (h @ ext) rs = Inr A"
proof (induction rs arbitrary: A)
  case Nil
  then show ?case by simp
next
  case (Cons r rs)
  then show ?case
    by (auto simp: get_nums_append split: sum.splits)
qed

lemma read_matrix_append:
  "read_matrix h a = Inr A \<Longrightarrow> read_matrix (h @ ext) a = Inr A"
  by (auto simp: read_matrix_def nth_append get_all_nums_append split: if_splits pyobj.splits)

lemma upt_add_Suc: "[n..<n + Suc k] = n # [Suc n..<Suc n + k]"
  by (subst upt_conv_Cons) auto

lemma get_nums_new: "get_nums (h @ NumList v # ext) (length h) = Inr v"
  by (simp add: get_nums_def nth_append)

lemma get_all_nums_new:
  "get_all_nums (h @ map NumList M @ ext) [length h..<length h + length M] = Inr M"
proof (induction M arbitrary: h)
  case Nil
  then show ?case by simp
next
  case (Cons row M)
  have "get_all_nums ((h @ [NumList row]) @ map NumList M @ ext)
          [length (h @ [NumList row])..<length (h @ [NumList row]) + length M] = Inr M"
    by (rule Cons.IH)
  then have rest: "get_all_nums (h @ NumList row # map NumList M @ ext)
          [Suc (length h)..<Suc (length h) + length M] = Inr M"
    by simp
  have "[length h..<length h + length (row # M)]
          = length h # [Suc (length h)..<Suc (length h) + length M]"
    using upt_add_Suc [of "length h" "length M"] by simp
  then show ?case
    using rest get_nums_new [of h row "map NumList M @ ext"] by simp
qed

lemma neg_rows_eq:
  "get_all_nums h rs = Inr A \<Longrightarrow>
   neg_rows h rs = Inr (h @ map (\<lambda>row. NumList (map uminus row)) A,
                        [length h..<length h + length A])"
proof (induction rs arbitrary: h A)
  case Nil
  then show ?case by simp
next
  case (Cons r rs)
  from Cons.prems obtain row A' where r: "get_nums h r = Inr row"
    and rest: "get_all_nums h rs = Inr A'" and A: "A = row # A'"
    by (auto split: sum.splits)
  let ?h1 = "h @ [NumList (map uminus row)]"
  have nl: "neg_list h r = Inr (?h1, length h)"
    by (simp add: neg_list_def r heap_new_def)
  from rest have "get_all_nums ?h1 rs = Inr A'" by (rule get_all_nums_append)
  from Cons.IH [OF this]
  have "neg_rows ?h1 rs = Inr (?h1 @ map (\<lambda>row. NumList (map uminus row)) A',
                        [length ?h1..<length ?h1 + length A'])" .
  then have "neg_rows ?h1 rs = Inr (h @ map (\<lambda>row. NumList (map uminus row)) A,
                        [Suc (length h)..<Suc (length h) + length A'])"
    by (simp add: A)
  moreover have "[length h..<length h + length A]
          = length h # [Suc (length h)..<Suc (length h) + length A']"
    using upt_add_Suc [of "length h" "length A'"] by (simp add: A)
  ultimately show ?case
    by (simp add: nl)
qed

lemma copy_rows_eq:
  "copy_rows h M = (h @ map NumList M, [length h..<length h + length M])"
proof (induction M arbitrary: h)
  case Nil
  then show ?case by simp
next
  case (Cons row M)
  have "[length h..<length h + length (row # M)]
          = length h # [Suc (length h)..<Suc (length h) + length M]"
    using upt_add_Suc [of "length h" "length M"] by simp
  then show ?case
    by (simp add: heap_new_def Cons.IH)
qed

lemma neg_list_eq:
  "get_nums h a = Inr v \<Longrightarrow> neg_list h a = Inr (h @ [NumList (map uminus v)], length h)"
  by (simp add: neg_list_def heap_new_def)

lemma neg_matrix_eq:
  assumes "Aa < length h" and "h ! Aa = RowList rs" and "get_all_nums h rs = Inr A"
  shows "neg_matrix h Aa =
           Inr (h @ map NumList (map (map uminus) A) @ [RowList [length h..<length h + length A]],
                length h + length A)"
  using assms neg_rows_eq [OF assms(3)]
  by (simp add: neg_matrix_def heap_new_def comp_def)

lemma PrimalProblem_init_eq:
  assumes "Aa < length h" and "h ! Aa = RowList rs" and "get_all_nums h rs = Inr A"
    and "get_nums h ba = Inr b"
  shows "PrimalProblem_init h ca Aa ba =
           Inr (h @ map NumList (map (map uminus) A)
                  @ [RowList [length h..<length h + length A], NumList (map uminus b)],
                \<lparr>costs_ref = ca, constraints_ref = length h + length A,
                 requirements_ref = Suc (length h + length A)\<rparr>)"
    and "GeneralizedPrimalProblem_init h ca Aa ba = PrimalProblem_init h ca Aa ba"
proof -
  let ?h1 = "h @ map NumList (map (map uminus) A) @ [RowList [length h..<length h + length A]]"
  have "get_nums ?h1 ba = Inr b" using assms(4) by (rule get_nums_append)
  from neg_list_eq [OF this] neg_matrix_eq [OF assms(1-3)]
  show "PrimalProblem_init h ca Aa ba =
           Inr (h @ map NumList (map (map uminus) A)
                  @ [RowList [length h..<length h + length A], NumList (map uminus b)],
                \<lparr>costs_ref = ca, constraints_ref = length h + length A,
                 requirements_ref = Suc (length h + length A)\<rparr>)"
    by (simp add: PrimalProblem_init_def)
  show "GeneralizedPrimalProblem_init h ca Aa ba = PrimalProblem_init h ca Aa ba"
    by (simp add: PrimalProblem_init_def GeneralizedPrimalProblem_init_def)
qed

lemma read_matrix_rows:
  assumes "Aa < length h" and "h ! Aa = RowList rs" and "get_all_nums h rs = Inr A"
  shows "read_matrix h Aa = Inr A"
  using assms by (simp add: read_matrix_def)

lemma DualProblem_init_eq:
  assumes "read_matrix h Aa = Inr A" and "get_nums h ba = Inr b" and "np_transpose conv A = Inr At"
  shows "DualProblem_init conv h ca Aa ba =
           Inr (h @ [NumList (map uminus b), NdArray At],
                \<lparr>costs_ref = length h, constraints_ref = Suc (length h),
                 requirements_ref = ca\<rparr>)"
    and "GeneralizedDualProblem_init conv h ca Aa ba =
           Inr (h @ [NumList (map uminus b), NdArray At] @ map NumList At
                  @ [RowList [length h + 2..<length h + 2 + length At]],
                \<lparr>costs_ref = length h, constraints_ref = length h + 2 + length At,
                 requirements_ref = ca\<rparr>)"
proof -
  let ?h1 = "h @ [NumList (map uminus b)]"
  let ?h2 = "h @ [NumList (map uminus b), NdArray At]"
  have nl: "neg_list h ba = Inr (?h1, length h)"
    using assms(2) by (rule neg_list_eq)
  have "read_matrix ?h1 Aa = Inr A" using assms(1) by (rule read_matrix_append)
  then have tn: "transpose_new conv ?h1 Aa = Inr (?h2, Suc (length h))"
    by (simp add: transpose_new_def assms(3) heap_new_def)
  show "DualProblem_init conv h ca Aa ba =
           Inr (?h2, \<lparr>costs_ref = length h, constraints_ref = Suc (length h),
                 requirements_ref = ca\<rparr>)"
    by (simp add: DualProblem_init_def nl tn)
  have rd: "read_matrix ?h2 (Suc (length h)) = Inr At"
    by (simp add: read_matrix_def nth_append)
  have cp: "copy_rows ?h2 At =
      (?h2 @ map NumList At, [length h + 2..<length h + 2 + length At])"
    using copy_rows_eq [of ?h2 At] by (simp del: upt_Suc)
  show "GeneralizedDualProblem_init conv h ca Aa ba =
           Inr (h @ [NumList (map uminus b), NdArray At] @ map NumList At
                  @ [RowList [length h + 2..<length h + 2 + length At]],
                \<lparr>costs_ref = length h, constraints_ref = length h + 2 + length At,
                 requirements_ref = ca\<rparr>)"
    unfolding GeneralizedDualProblem_init_def nl
    by (simp add: tn rd cp heap_new_def del: upt_Suc)
qed

lemma fresh_upt: "list_all (\<lambda>a. n \<le> a \<and> a < n + k + j) [n..<n + k]"
  by (simp add: list_all_iff)

lemma nth_append2:
  "length xs = n \<Longrightarrow> length ys = k \<Longrightarrow> (xs @ ys @ z # zs) ! (n + k) = z"
  by (auto simp: nth_append)

lemma read_matrix_RowList:
  "a < length h \<Longrightarrow> h ! a = RowList rs \<Longrightarrow> read_matrix h a = get_all_nums h rs"
  by (simp add: read_matrix_def)

lemma fresh_rows_new:
  assumes "h' = h @ pre @ map NumList M @ [RowList [length h + length pre..<length h + length pre + length M]] @ post"
  shows "fresh_rows h h' (length h + length pre + length M)"
proof -
  have "((h @ pre) @ map NumList M
          @ RowList [length h + length pre..<length h + length pre + length M] # post)
        ! (length h + length pre + length M)
      = RowList [length h + length pre..<length h + length pre + length M]"
    by (rule nth_append2) simp_all
  then have nth: "h' ! (length h + length pre + length M)
      = RowList [length h + length pre..<length h + length pre + length M]"
    unfolding assms by simp
  have "list_all (fresh_in h h') [length h + length pre..<length h + length pre + length M]"
    unfolding assms by (simp add: list_all_iff fresh_in_def)
  then show ?thesis
    unfolding fresh_rows_def nth by (simp add: assms)
qed

text \<open>
  C10. On a store where the three arguments are a list of costs, a list of row lists and a
  list of requirements, each of the four constructors returns a store that extends the
  given one: every object that existed before, the three argument lists and the rows
  among them, is unchanged, and reading the arguments afterwards gives the same values. The
  negated (or transposed) matrix, its rows and the negated vector are at fresh addresses;
  the only reference to an argument that an instance keeps is the unnegated cost list. The values read through the instance are
  those of the value-level constructors. (The dual classes need rows of one length.)
\<close>

theorem constructors_leave_arguments:
  assumes c: "get_nums h ca = Inr c"
    and Aa: "Aa < length h" and rs: "h ! Aa = RowList rs" and A: "get_all_nums h rs = Inr A"
    and b: "get_nums h ba = Inr b"
  shows "(\<exists>h' self. PrimalProblem_init h ca Aa ba = Inr (h', self)
            \<and> GeneralizedPrimalProblem_init h ca Aa ba = Inr (h', self)
            \<and> heap_extends h h'
            \<and> get_nums h' ca = Inr c \<and> read_matrix h' Aa = Inr A \<and> get_nums h' ba = Inr b
            \<and> costs_ref self = ca
            \<and> fresh_in h h' (constraints_ref self) \<and> fresh_rows h h' (constraints_ref self)
            \<and> fresh_in h h' (requirements_ref self)
            \<and> read_matrix h' (constraints_ref self) = Inr (constraints (PrimalProblem c A b))
            \<and> get_nums h' (requirements_ref self) = Inr (requirements (PrimalProblem c A b)))
       \<and> (rectangular A \<longrightarrow>
           (\<exists>h' self D. DualProblem_init conv h ca Aa ba = Inr (h', self)
            \<and> DualProblem conv c A b = Inr D
            \<and> heap_extends h h'
            \<and> get_nums h' ca = Inr c \<and> read_matrix h' Aa = Inr A \<and> get_nums h' ba = Inr b
            \<and> requirements_ref self = ca
            \<and> fresh_in h h' (costs_ref self) \<and> fresh_in h h' (constraints_ref self)
            \<and> get_nums h' (costs_ref self) = Inr (costs D)
            \<and> read_matrix h' (constraints_ref self) = Inr (constraints D)))
       \<and> (rectangular A \<longrightarrow>
           (\<exists>h' self D. GeneralizedDualProblem_init conv h ca Aa ba = Inr (h', self)
            \<and> GeneralizedDualProblem conv c A b = Inr D
            \<and> heap_extends h h'
            \<and> get_nums h' ca = Inr c \<and> read_matrix h' Aa = Inr A \<and> get_nums h' ba = Inr b
            \<and> requirements_ref self = ca
            \<and> fresh_in h h' (costs_ref self) \<and> fresh_in h h' (constraints_ref self)
            \<and> fresh_rows h h' (constraints_ref self)
            \<and> get_nums h' (costs_ref self) = Inr (costs D)
            \<and> read_matrix h' (constraints_ref self) = Inr (constraints D)))"
proof (intro conjI impI)
  have rm: "read_matrix h Aa = Inr A" using Aa rs A by (rule read_matrix_rows)
  let ?N = "map (map uminus) A"
  let ?h' = "h @ map NumList ?N @ [RowList [length h..<length h + length A], NumList (map uminus b)]"
  let ?self = "\<lparr>costs_ref = ca, constraints_ref = length h + length A,
                 requirements_ref = Suc (length h + length A)\<rparr>"
  have p1: "PrimalProblem_init h ca Aa ba = Inr (?h', ?self)"
    and p2: "GeneralizedPrimalProblem_init h ca Aa ba = Inr (?h', ?self)"
    using PrimalProblem_init_eq [OF Aa rs A b, of ca] by simp_all
  have ext: "heap_extends h ?h'" by (rule heap_extends_append)
  have r1: "get_nums ?h' ca = Inr c" using c by (rule get_nums_append)
  have r2: "read_matrix ?h' Aa = Inr A" using rm by (rule read_matrix_append)
  have r3: "get_nums ?h' ba = Inr b" using b by (rule get_nums_append)
  have f1: "fresh_in h ?h' (constraints_ref ?self)" by (simp add: fresh_in_def)
  have f2: "fresh_rows h ?h' (constraints_ref ?self)"
    using fresh_rows_new [of ?h' h "[]" ?N "[NumList (map uminus b)]"] by simp
  have f3: "fresh_in h ?h' (requirements_ref ?self)" by (simp add: fresh_in_def)
  have nthA: "?h' ! (length h + length A) = RowList [length h..<length h + length A]"
    by (rule nth_append2) simp_all
  have lt: "length h + length A < length ?h'" by simp
  have "get_all_nums (h @ map NumList ?N @ [RowList [length h..<length h + length A],
            NumList (map uminus b)]) [length h..<length h + length ?N] = Inr ?N"
    by (rule get_all_nums_new)
  then have "get_all_nums ?h' [length h..<length h + length A] = Inr ?N"
    by (simp del: upt_Suc)
  with read_matrix_RowList [OF lt nthA]
  have v1: "read_matrix ?h' (constraints_ref ?self) = Inr (constraints (PrimalProblem c A b))"
    by (simp add: PrimalProblem_def del: upt_Suc)
  have "get_nums ((h @ map NumList ?N @ [RowList [length h..<length h + length A]])
            @ NumList (map uminus b) # []) (length (h @ map NumList ?N @ [RowList [length h..<length h + length A]]))
          = Inr (map uminus b)"
    by (rule get_nums_new)
  then have v2: "get_nums ?h' (requirements_ref ?self) = Inr (requirements (PrimalProblem c A b))"
    by (simp add: PrimalProblem_def del: upt_Suc)
  have cr: "costs_ref ?self = ca" by simp
  from p1 p2 ext r1 r2 r3 cr f1 f2 f3 v1 v2
  show "\<exists>h' self. PrimalProblem_init h ca Aa ba = Inr (h', self)
            \<and> GeneralizedPrimalProblem_init h ca Aa ba = Inr (h', self)
            \<and> heap_extends h h'
            \<and> get_nums h' ca = Inr c \<and> read_matrix h' Aa = Inr A \<and> get_nums h' ba = Inr b
            \<and> costs_ref self = ca
            \<and> fresh_in h h' (constraints_ref self) \<and> fresh_rows h h' (constraints_ref self)
            \<and> fresh_in h h' (requirements_ref self)
            \<and> read_matrix h' (constraints_ref self) = Inr (constraints (PrimalProblem c A b))
            \<and> get_nums h' (requirements_ref self) = Inr (requirements (PrimalProblem c A b))"
    by blast
next
  assume rect: "rectangular A"
  have rm: "read_matrix h Aa = Inr A" using Aa rs A by (rule read_matrix_rows)
  let ?At = "map (\<lambda>j. map (\<lambda>row. conv (row ! j)) A) [0..<ncols A]"
  let ?D = "\<lparr>costs = map uminus b, constraints = ?At, requirements = c\<rparr>"
  let ?h' = "h @ [NumList (map uminus b), NdArray ?At]"
  let ?self = "\<lparr>costs_ref = length h, constraints_ref = Suc (length h), requirements_ref = ca\<rparr>"
  have tr: "np_transpose conv A = Inr ?At" using rect by (rule np_transpose_rectangular)
  have d1: "DualProblem_init conv h ca Aa ba = Inr (?h', ?self)"
    using DualProblem_init_eq(1) [OF rm b tr] .
  have d2: "DualProblem conv c A b = Inr ?D"
    using dual_problem_rectangular(1) [OF rect] .
  have ext: "heap_extends h ?h'" by (rule heap_extends_append)
  have r1: "get_nums ?h' ca = Inr c" using c by (rule get_nums_append)
  have r2: "read_matrix ?h' Aa = Inr A" using rm by (rule read_matrix_append)
  have r3: "get_nums ?h' ba = Inr b" using b by (rule get_nums_append)
  have f1: "fresh_in h ?h' (costs_ref ?self)" by (simp add: fresh_in_def)
  have f2: "fresh_in h ?h' (constraints_ref ?self)" by (simp add: fresh_in_def)
  have v1: "get_nums ?h' (costs_ref ?self) = Inr (costs ?D)"
    by (simp add: get_nums_def nth_append)
  have v2: "read_matrix ?h' (constraints_ref ?self) = Inr (constraints ?D)"
    by (simp add: read_matrix_def nth_append)
  have rr: "requirements_ref ?self = ca" by simp
  from d1 d2 ext r1 r2 r3 rr f1 f2 v1 v2
  show "\<exists>h' self D. DualProblem_init conv h ca Aa ba = Inr (h', self)
            \<and> DualProblem conv c A b = Inr D
            \<and> heap_extends h h'
            \<and> get_nums h' ca = Inr c \<and> read_matrix h' Aa = Inr A \<and> get_nums h' ba = Inr b
            \<and> requirements_ref self = ca
            \<and> fresh_in h h' (costs_ref self) \<and> fresh_in h h' (constraints_ref self)
            \<and> get_nums h' (costs_ref self) = Inr (costs D)
            \<and> read_matrix h' (constraints_ref self) = Inr (constraints D)"
    by blast
next
  assume rect: "rectangular A"
  have rm: "read_matrix h Aa = Inr A" using Aa rs A by (rule read_matrix_rows)
  let ?At = "map (\<lambda>j. map (\<lambda>row. conv (row ! j)) A) [0..<ncols A]"
  let ?D = "\<lparr>costs = map uminus b, constraints = ?At, requirements = c\<rparr>"
  let ?h' = "h @ [NumList (map uminus b), NdArray ?At] @ map NumList ?At
                  @ [RowList [length h + 2..<length h + 2 + length ?At]]"
  let ?self = "\<lparr>costs_ref = length h, constraints_ref = length h + 2 + length ?At,
                 requirements_ref = ca\<rparr>"
  have tr: "np_transpose conv A = Inr ?At" using rect by (rule np_transpose_rectangular)
  have d1: "GeneralizedDualProblem_init conv h ca Aa ba = Inr (?h', ?self)"
    using DualProblem_init_eq(2) [OF rm b tr] .
  have d2: "GeneralizedDualProblem conv c A b = Inr ?D"
    using dual_problem_rectangular [OF rect] by simp
  have ext: "heap_extends h ?h'" by (rule heap_extends_append)
  have r1: "get_nums ?h' ca = Inr c" using c by (rule get_nums_append)
  have r2: "read_matrix ?h' Aa = Inr A" using rm by (rule read_matrix_append)
  have r3: "get_nums ?h' ba = Inr b" using b by (rule get_nums_append)
  have f1: "fresh_in h ?h' (costs_ref ?self)" by (simp add: fresh_in_def)
  have f2: "fresh_in h ?h' (constraints_ref ?self)" by (simp add: fresh_in_def)
  have f3: "fresh_rows h ?h' (constraints_ref ?self)"
    using fresh_rows_new [of ?h' h "[NumList (map uminus b), NdArray ?At]" ?At "[]"]
    by (simp del: upt_Suc)
  have v1: "get_nums ?h' (costs_ref ?self) = Inr (costs ?D)"
    by (simp add: get_nums_def nth_append)
  have "((h @ [NumList (map uminus b), NdArray ?At]) @ map NumList ?At
            @ RowList [length h + 2..<length h + 2 + length ?At] # [])
          ! (length h + 2 + length ?At) = RowList [length h + 2..<length h + 2 + length ?At]"
    by (rule nth_append2) simp_all
  then have nthA: "?h' ! (length h + 2 + length ?At)
      = RowList [length h + 2..<length h + 2 + length ?At]"
    by (simp del: upt_Suc)
  have lt: "length h + 2 + length ?At < length ?h'" by simp
  have "get_all_nums ((h @ [NumList (map uminus b), NdArray ?At]) @ map NumList ?At
            @ [RowList [length h + 2..<length h + 2 + length ?At]])
          [length (h @ [NumList (map uminus b), NdArray ?At])
            ..<length (h @ [NumList (map uminus b), NdArray ?At]) + length ?At] = Inr ?At"
    by (rule get_all_nums_new)
  then have ga: "get_all_nums ?h' [length h + 2..<length h + 2 + length ?At] = Inr ?At"
    by (simp del: upt_Suc)
  with read_matrix_RowList [OF lt nthA]
  have v2: "read_matrix ?h' (constraints_ref ?self) = Inr (constraints ?D)"
    by (simp del: upt_Suc)
  have rr: "requirements_ref ?self = ca" by simp
  from d1 d2 ext r1 r2 r3 rr f1 f2 f3 v1 v2
  show "\<exists>h' self D. GeneralizedDualProblem_init conv h ca Aa ba = Inr (h', self)
            \<and> GeneralizedDualProblem conv c A b = Inr D
            \<and> heap_extends h h'
            \<and> get_nums h' ca = Inr c \<and> read_matrix h' Aa = Inr A \<and> get_nums h' ba = Inr b
            \<and> requirements_ref self = ca
            \<and> fresh_in h h' (costs_ref self) \<and> fresh_in h h' (constraints_ref self)
            \<and> fresh_rows h h' (constraints_ref self)
            \<and> get_nums h' (costs_ref self) = Inr (costs D)
            \<and> read_matrix h' (constraints_ref self) = Inr (constraints D)"
    by blast
qed

lemma scenario_heap_reads:
  "get_nums scenario_heap 0 = Inr base_costs"
  "6 < length scenario_heap"
  "scenario_heap ! 6 = RowList [1, 2, 3, 4, 5]"
  "get_all_nums scenario_heap [1, 2, 3, 4, 5] = Inr base_constraints"
  "get_nums scenario_heap 7 = Inr base_requirements"
  by (simp_all add: scenario_heap_def get_nums_def base_costs_def base_constraints_def
      base_requirements_def)

theorem constructors_leave_arguments_witness:
  "PrimalProblem_init scenario_heap 0 6 7 =
     Inr (scenario_heap
            @ [NumList [- 500, - 300, - 800], NumList [- 1000, - 2000, - 1500],
               NumList [- 10, - 20, - 15], NumList [- 100, - 80, - 15],
               NumList [- 80, - 120, - 200],
               RowList [8, 9, 10, 11, 12],
               NumList [- 100000, - 200000, - 100, - 400, - 400]],
          \<lparr>costs_ref = 0, constraints_ref = 13, requirements_ref = 14\<rparr>)
   \<and> (\<exists>h' self. PrimalProblem_init scenario_heap 0 6 7 = Inr (h', self)
         \<and> heap_extends scenario_heap h'
         \<and> read_matrix h' 6 = Inr base_constraints
         \<and> fresh_rows scenario_heap h' (constraints_ref self))
   \<and> (\<exists>h' self. DualProblem_init (\<lambda>v. v) scenario_heap 0 6 7 = Inr (h', self)
         \<and> heap_extends scenario_heap h'
         \<and> read_matrix h' 6 = Inr base_constraints
         \<and> requirements_ref self = 0)
   \<and> (\<exists>h' self. GeneralizedDualProblem_init (\<lambda>v. v) scenario_heap 0 6 7 = Inr (h', self)
         \<and> heap_extends scenario_heap h'
         \<and> read_matrix h' 6 = Inr base_constraints
         \<and> fresh_rows scenario_heap h' (constraints_ref self))"
proof -
  note frame = constructors_leave_arguments [OF scenario_heap_reads]
  have run: "PrimalProblem_init scenario_heap 0 6 7 =
     Inr (scenario_heap
            @ [NumList [- 500, - 300, - 800], NumList [- 1000, - 2000, - 1500],
               NumList [- 10, - 20, - 15], NumList [- 100, - 80, - 15],
               NumList [- 80, - 120, - 200],
               RowList [8, 9, 10, 11, 12],
               NumList [- 100000, - 200000, - 100, - 400, - 400]],
          \<lparr>costs_ref = 0, constraints_ref = 13, requirements_ref = 14\<rparr>)"
    by (simp add: PrimalProblem_init_def neg_matrix_def neg_list_def heap_new_def
        get_nums_def scenario_heap_def nth_append)
  from frame have p: "\<exists>h' self. PrimalProblem_init scenario_heap 0 6 7 = Inr (h', self)
         \<and> heap_extends scenario_heap h'
         \<and> read_matrix h' 6 = Inr base_constraints
         \<and> fresh_rows scenario_heap h' (constraints_ref self)"
    by blast
  from frame rectangular_base have d: "\<exists>h' self. DualProblem_init (\<lambda>v. v) scenario_heap 0 6 7 = Inr (h', self)
         \<and> heap_extends scenario_heap h'
         \<and> read_matrix h' 6 = Inr base_constraints
         \<and> requirements_ref self = 0"
    by blast
  from frame rectangular_base have g: "\<exists>h' self. GeneralizedDualProblem_init (\<lambda>v. v) scenario_heap 0 6 7 = Inr (h', self)
         \<and> heap_extends scenario_heap h'
         \<and> read_matrix h' 6 = Inr base_constraints
         \<and> fresh_rows scenario_heap h' (constraints_ref self)"
    by blast
  from run p d g show ?thesis by blast
qed

section \<open>Farkas' lemma and strong duality\<close>






























lemma GeneralizedPrimalProblem_solve_or_zero:
  assumes "GeneralizedPrimalProblem_solve lp P = Inr ((lots, v), out)"
  shows "(\<exists>r. lp (costs P) (constraints P) (requirements P) = Inr r
           \<and> (res_success r \<longrightarrow> v = Some (res_fun r) \<and> out = [])
           \<and> (\<not> res_success r \<longrightarrow> v = None \<and> lots = None \<and> out = [msg_generalized]))"
  using assms
  by (auto simp: GeneralizedPrimalProblem_solve_def split: sum.splits if_splits)













end
